theory Spec2Isabelle
  imports Complex_Main "HOL-Library.Sublist" "HOL-Library.Multiset" "HOL-Library.Log_Nat"
begin

chapter \<open>SERA: dataset curation tools and the stage pipeline\<close>

text \<open>
  A shallow embedding of \<^verbatim>\<open>sera/main.py\<close> (the class \<^verbatim>\<open>Experiment\<close>),
  \<^verbatim>\<open>sera/datagen/data/filter.py\<close> and \<^verbatim>\<open>sera/datagen/data/scale.py\<close>.
  The first part holds the model, function by function in the order of the sources;
  the second part holds the properties.
\<close>

section \<open>Python values\<close>

text \<open>
  A Python \<^verbatim>\<open>str\<close> is a sequence of Unicode code points; a code point is a natural
  number here, so that the line boundaries of \<^verbatim>\<open>str.splitlines\<close> above U+00FF
  are in the model. \<open>lit\<close> turns an ASCII literal of the source into such a string.
\<close>

type_synonym pystr = "nat list"

definition lit :: "string \<Rightarrow> pystr" where
  "lit s = map of_char s"

text \<open>The exceptions the modelled code raises, by the name of their Python class.\<close>

datatype py_error =
    ValueError
  | RuntimeError
  | TypeError
  | AttributeError
  | ZeroDivisionError
  | IndexError
  | KeyError
  | FileExistsError
  | FileNotFoundError

text \<open>Sequencing of a computation that may raise: the first exception wins.\<close>

definition bind_err :: "py_error + 'a \<Rightarrow> ('a \<Rightarrow> py_error + 'b) \<Rightarrow> py_error + 'b" where
  "bind_err m f = (case m of Inl e \<Rightarrow> Inl e | Inr a \<Rightarrow> f a)"

text \<open>
  A Python \<^verbatim>\<open>float\<close> is modelled by the rational number it denotes (infinities
  and NaN are left out). Comparisons and \<^verbatim>\<open>int(x)\<close> are exact on such values;
  multiplication and true division round the exact result to the nearest double, ties to
  even: 53 significant bits, the exponent range taken as unbounded. An int operand of a
  float multiplication is taken to be below \<open>2 ^ 53\<close>, where its conversion is exact.
\<close>

definition double_exponent :: "rat \<Rightarrow> int" where
  \<comment> \<open>for \<open>0 < q\<close>: the \<open>e\<close> with \<open>2 ^ e \<le> q < 2 ^ (e + 1)\<close>\<close>
  "double_exponent q =
     (if 1 \<le> q then bitlen \<lfloor>q\<rfloor> - 1
      else (let k = bitlen \<lfloor>1 / q\<rfloor> - 1
            in if 1 / q = of_int (2 ^ nat k) then - k else - k - 1))"

definition pow2 :: "int \<Rightarrow> rat" where
  "pow2 e = (if 0 \<le> e then of_int (2 ^ nat e) else 1 / of_int (2 ^ nat (- e)))"

definition round_half_even :: "rat \<Rightarrow> int" where
  "round_half_even m =
     (let f = \<lfloor>m\<rfloor>; r = m - of_int f
      in if r < 1 / 2 then f
         else if 1 / 2 < r then f + 1
         else if even f then f else f + 1)"

definition round_to_double :: "rat \<Rightarrow> rat" where
  "round_to_double q =
     (if q = 0 then 0
      else (let a = \<bar>q\<bar>; s = double_exponent a - 52;
                m = round_half_even (a / pow2 s)
            in sgn q * of_int m * pow2 s))"

definition float_mul :: "rat \<Rightarrow> rat \<Rightarrow> rat" where
  "float_mul a b = round_to_double (a * b)"

definition int_truediv :: "int \<Rightarrow> int \<Rightarrow> py_error + rat" where
  \<comment> \<open>\<^verbatim>\<open>a / b\<close> on two ints\<close>
  "int_truediv a b =
     (if b = 0 then Inl ZeroDivisionError else Inr (round_to_double (of_int a / of_int b)))"

definition py_int :: "rat \<Rightarrow> int" where
  \<comment> \<open>\<^verbatim>\<open>int(x)\<close> truncates towards zero\<close>
  "py_int q = (if 0 \<le> q then \<lfloor>q\<rfloor> else \<lceil>q\<rceil>)"

section \<open>The stage pipeline (\<^verbatim>\<open>sera/main.py\<close>)\<close>

datatype stage = Generate | DistillOne | DistillTwo | Eval | Postprocess

text \<open>
  A \<^verbatim>\<open>pathlib.Path\<close> is kept symbolic: a directory handed in from outside, or
  \<^verbatim>\<open>p / name\<close>.
\<close>

datatype path = Dir pystr | Sub path pystr

text \<open>
  What a run does is recorded as a trace: \<open>RunStage s skip\<close> for the entry into the
  method \<^verbatim>\<open>_run_<s>\<close> with its \<^verbatim>\<open>skip\<close> flag, and one event for each
  call of a collaborator from another module (\<^verbatim>\<open>generate_method\<close>,
  \<^verbatim>\<open>distill_method\<close> with its \<^verbatim>\<open>stage\<close> and \<^verbatim>\<open>metadata_only\<close>,
  \<^verbatim>\<open>scrape_synthetic_prs\<close>, \<^verbatim>\<open>save_yaml\<close>, \<^verbatim>\<open>eval_loop\<close>,
  \<^verbatim>\<open>dump_json\<close>, \<^verbatim>\<open>format_and_save\<close> with its trajectory directory and
  report path).
\<close>

datatype event =
    RunStage stage bool
  | GenerateMethod
  | DistillMethod pystr bool
  | ScrapeSyntheticPrs path path
  | SaveYaml path
  | EvalLoop path path
  | DumpJson path
  | FormatAndSave path "path option"

text \<open>
  The collaborators are not part of the modelled files. They are parameters: what
  \<^verbatim>\<open>distill_method\<close> returns (output directory, instances file), which paths exist,
  the experiment folder's data directory and the text of
  \<^verbatim>\<open>cfg.compare_patch_threshold\<close> in the report's file name. Each is taken to
  return normally.
\<close>

record pipeline_env =
  data_dir :: path
  distill_method :: "pystr \<Rightarrow> bool \<Rightarrow> path \<times> path"
  path_exists :: "path \<Rightarrow> bool"
  compare_patch_threshold :: pystr

text \<open>
  The attributes an \<^verbatim>\<open>Experiment\<close> sets while it runs; \<open>None\<close> is an attribute
  not yet assigned, and reading it raises \<^verbatim>\<open>AttributeError\<close>.
\<close>

record experiment_state =
  stage_one_output_dir :: "path option"
  stage_one_instances_fp :: "path option"
  stage_two_output_dir :: "path option"
  stage_two_instances_fp :: "path option"
  report_fp :: "path option"
  trace :: "event list"

definition new_experiment :: experiment_state where
  "new_experiment =
     \<lparr>stage_one_output_dir = None, stage_one_instances_fp = None,
      stage_two_output_dir = None, stage_two_instances_fp = None,
      report_fp = None, trace = []\<rparr>"

definition attr :: "'a option \<Rightarrow> py_error + 'a" where
  "attr a = (case a of None \<Rightarrow> Inl AttributeError | Some v \<Rightarrow> Inr v)"

definition emit :: "event list \<Rightarrow> experiment_state \<Rightarrow> experiment_state" where
  "emit evs e = e\<lparr>trace := trace e @ evs\<rparr>"

definition stage_map :: "(pystr \<times> int) list" where
  "stage_map =
     [(lit ''pipeline'', - 1),
      (lit ''generate'', 0),
      (lit ''distill_stage_one'', 1),
      (lit ''distill_stage_two'', 2),
      (lit ''eval'', 3),
      (lit ''postprocess'', 4)]"

definition run_generate :: "pipeline_env \<Rightarrow> bool \<Rightarrow> experiment_state \<Rightarrow> py_error + experiment_state" where
  "run_generate env skip e =
     Inr (emit (RunStage Generate skip # (if \<not> skip then [GenerateMethod] else [])) e)"

definition run_distill_one :: "pipeline_env \<Rightarrow> bool \<Rightarrow> experiment_state \<Rightarrow> py_error + experiment_state" where
  "run_distill_one env skip e =
     (let (out_dir, instances_fp) = distill_method env (lit ''stage_one'') skip
      in Inr ((emit [RunStage DistillOne skip, DistillMethod (lit ''stage_one'') skip] e)
           \<lparr>stage_one_output_dir := Some out_dir, stage_one_instances_fp := Some instances_fp\<rparr>))"

definition run_distill_two :: "pipeline_env \<Rightarrow> bool \<Rightarrow> experiment_state \<Rightarrow> py_error + experiment_state" where
  "run_distill_two env skip e =
     (let e1 = emit [RunStage DistillTwo skip] e;
          fp = Sub (data_dir env) (lit ''stage_two_instances.yaml'')
      in bind_err
           (if \<not> skip \<and> \<not> path_exists env fp
            then bind_err (attr (stage_one_instances_fp e1)) (\<lambda>s1_fp.
                 bind_err (attr (stage_one_output_dir e1)) (\<lambda>s1_dir.
                 Inr (emit [ScrapeSyntheticPrs s1_fp s1_dir, SaveYaml fp] e1)))
            else Inr e1)
           (\<lambda>e2. let (out_dir, instances_fp) = distill_method env (lit ''stage_two'') skip
                 in Inr ((emit [DistillMethod (lit ''stage_two'') skip] e2)
                      \<lparr>stage_two_output_dir := Some out_dir,
                       stage_two_instances_fp := Some instances_fp\<rparr>)))"

definition run_eval :: "pipeline_env \<Rightarrow> bool \<Rightarrow> experiment_state \<Rightarrow> py_error + experiment_state" where
  "run_eval env skip e =
     (let e1 = emit [RunStage Eval skip] e
      in bind_err (attr (stage_two_output_dir e1)) (\<lambda>s2_dir.
         let fp = Sub s2_dir (lit ''report_t'' @ compare_patch_threshold env @ lit ''.json'')
         in if skip then Inr (e1\<lparr>report_fp := Some fp\<rparr>)
            else bind_err (attr (stage_two_instances_fp e1)) (\<lambda>s2_fp.
                 Inr ((emit [EvalLoop s2_fp s2_dir, DumpJson fp] e1)\<lparr>report_fp := Some fp\<rparr>))))"

definition run_postprocess :: "pipeline_env \<Rightarrow> bool \<Rightarrow> experiment_state \<Rightarrow> py_error + experiment_state" where
  \<comment> \<open>the method never reads its \<^verbatim>\<open>skip\<close> flag but for the log line\<close>
  "run_postprocess env skip e =
     (let e1 = emit [RunStage Postprocess skip] e
      in bind_err (attr (stage_one_output_dir e1)) (\<lambda>s1_dir.
         let e2 = emit [FormatAndSave s1_dir None] e1
         in bind_err (attr (stage_two_output_dir e2)) (\<lambda>s2_dir.
            bind_err (attr (report_fp e2)) (\<lambda>rep.
            Inr (emit [FormatAndSave s2_dir (Some rep)] e2)))))"

definition run_pipeline :: "pipeline_env \<Rightarrow> int \<Rightarrow> experiment_state \<Rightarrow> py_error + experiment_state" where
  "run_pipeline env stage_idx e =
     bind_err (run_generate env (stage_idx > 0) e) (\<lambda>e.
     bind_err (run_distill_one env (stage_idx > 1) e) (\<lambda>e.
     bind_err (run_distill_two env (stage_idx > 2) e) (\<lambda>e.
     bind_err (run_eval env (stage_idx > 3) e) (\<lambda>e.
     run_postprocess env (stage_idx > 4) e))))"

definition run :: "pipeline_env \<Rightarrow> pystr \<Rightarrow> experiment_state \<Rightarrow> py_error + experiment_state" where
  "run env stage_name e =
     (case map_of stage_map stage_name of
        None \<Rightarrow> Inl ValueError
      | Some stage_idx \<Rightarrow> run_pipeline env stage_idx e)"

text \<open>Reading a trace: which stage methods were entered, in which mode.\<close>

fun stage_runs :: "event list \<Rightarrow> (stage \<times> bool) list" where
  "stage_runs [] = []"
| "stage_runs (RunStage s skip # evs) = (s, skip) # stage_runs evs"
| "stage_runs (_ # evs) = stage_runs evs"

definition stage_runs_of :: "py_error + experiment_state \<Rightarrow> (stage \<times> bool) list" where
  "stage_runs_of r = (case r of Inl _ \<Rightarrow> [] | Inr e \<Rightarrow> stage_runs (trace e))"

definition trace_of :: "py_error + experiment_state \<Rightarrow> event list" where
  "trace_of r = (case r of Inl _ \<Rightarrow> [] | Inr e \<Rightarrow> trace e)"

fun stage_index :: "stage \<Rightarrow> int" where
  "stage_index Generate = 0"
| "stage_index DistillOne = 1"
| "stage_index DistillTwo = 2"
| "stage_index Eval = 3"
| "stage_index Postprocess = 4"

definition example_env :: pipeline_env where
  "example_env =
     \<lparr>data_dir = Dir (lit ''exp/data''),
      distill_method = (\<lambda>st metadata_only. (Sub (Dir (lit ''exp'')) st, Sub (Dir (lit ''exp/data'')) st)),
      path_exists = (\<lambda>p. False),
      compare_patch_threshold = lit ''0.5''\<rparr>"

fun is_format_and_save :: "event \<Rightarrow> bool" where
  "is_format_and_save (FormatAndSave d r) = True"
| "is_format_and_save _ = False"

fun is_eval_loop :: "event \<Rightarrow> bool" where
  "is_eval_loop (EvalLoop f d) = True"
| "is_eval_loop _ = False"

section \<open>Strings, paths and files\<close>

definition startswith :: "pystr \<Rightarrow> pystr \<Rightarrow> bool" where
  \<comment> \<open>\<^verbatim>\<open>s.startswith(p)\<close>\<close>
  "startswith s p = prefix p s"

definition contains :: "pystr \<Rightarrow> pystr \<Rightarrow> bool" where
  \<comment> \<open>\<^verbatim>\<open>sub in s\<close>\<close>
  "contains s sub = sublist sub s"

text \<open>
  \<^verbatim>\<open>str.splitlines()\<close>: a line ends at a line boundary, which is not part of the
  line; \<^verbatim>\<open>\r\n\<close> is one boundary; no empty line follows a final boundary. The
  boundaries are \<^verbatim>\<open>\n \v \f \r \x1c \x1d \x1e \x85\<close>, U+2028 and U+2029.
\<close>

definition line_boundary :: "nat \<Rightarrow> bool" where
  "line_boundary c = (c \<in> set [10, 11, 12, 13, 28, 29, 30, 133, 8232, 8233])"

fun splitlines_from :: "pystr \<Rightarrow> pystr \<Rightarrow> pystr list" where
  "splitlines_from cur [] = (if cur = [] then [] else [cur])"
| "splitlines_from cur [c] = (if line_boundary c then [cur] else [cur @ [c]])"
| "splitlines_from cur (c # d # ds) =
     (if c = 13 \<and> d = 10 then cur # splitlines_from [] ds
      else if line_boundary c then cur # splitlines_from [] (d # ds)
      else splitlines_from (cur @ [c]) (d # ds))"

definition splitlines :: "pystr \<Rightarrow> pystr list" where
  "splitlines s = splitlines_from [] s"

text \<open>\<^verbatim>\<open>s.split(sep)\<close> and \<^verbatim>\<open>sep.join(parts)\<close> for a separator of one character.\<close>

fun split_from :: "nat \<Rightarrow> pystr \<Rightarrow> pystr \<Rightarrow> pystr list" where
  "split_from sep cur [] = [cur]"
| "split_from sep cur (c # cs) =
     (if c = sep then cur # split_from sep [] cs else split_from sep (cur @ [c]) cs)"

definition split :: "pystr \<Rightarrow> nat \<Rightarrow> pystr list" where
  "split s sep = split_from sep [] s"

fun join :: "nat \<Rightarrow> pystr list \<Rightarrow> pystr" where
  "join sep [] = []"
| "join sep [x] = x"
| "join sep (x # y # ys) = x @ sep # join sep (y # ys)"

text \<open>\<^verbatim>\<open>str(n)\<close> for an int, as an f-string prints it.\<close>

function str_nat :: "nat \<Rightarrow> pystr" where
  "str_nat n = (if n < 10 then [48 + n] else str_nat (n div 10) @ [48 + n mod 10])"
  by pat_completeness auto
termination
  by (relation "measure (\<lambda>n. n)") auto

definition str_int :: "int \<Rightarrow> pystr" where
  "str_int i = (if i < 0 then 45 # str_nat (nat (- i)) else str_nat (nat i))"

text \<open>
  \<^verbatim>\<open>os.path\<close> on POSIX: \<^verbatim>\<open>splitext\<close>, \<^verbatim>\<open>dirname\<close> and \<^verbatim>\<open>join\<close>
  of two components. \<open>rfind\<close> is \<^verbatim>\<open>str.rfind\<close> for one character: the last index
  of it, or \<open>-1\<close>.
\<close>

definition rfind :: "pystr \<Rightarrow> nat \<Rightarrow> int" where
  "rfind p c =
     (if c \<in> set p then int (length p) - 1 - int (length (takeWhile (\<lambda>x. x \<noteq> c) (rev p)))
      else - 1)"

definition splitext :: "pystr \<Rightarrow> pystr \<times> pystr" where
  "splitext p =
     (let sepIndex = rfind p 47; dotIndex = rfind p 46
      in if dotIndex > sepIndex \<and>
            list_ex (\<lambda>x. x \<noteq> 46) (drop (nat (sepIndex + 1)) (take (nat dotIndex) p))
         then (take (nat dotIndex) p, drop (nat dotIndex) p)
         else (p, []))"

definition rstrip :: "pystr \<Rightarrow> nat \<Rightarrow> pystr" where
  "rstrip s c = rev (dropWhile (\<lambda>x. x = c) (rev s))"

definition dirname :: "pystr \<Rightarrow> pystr" where
  "dirname p =
     (let i = rfind p 47 + 1; head = take (nat i) p
      in if head \<noteq> [] \<and> head \<noteq> replicate (length head) 47 then rstrip head 47 else head)"

definition path_join :: "pystr \<Rightarrow> pystr \<Rightarrow> pystr" where
  "path_join a b =
     (if startswith b [47] then b
      else if a = [] \<or> last a = 47 then a @ b
      else a @ 47 # b)"

text \<open>
  A dataset file holds one JSON object per line; \<^verbatim>\<open>json.loads\<close> of a line gives a
  trajectory and \<^verbatim>\<open>json.dumps\<close> writes it back. Of a trajectory the tools read the
  fields \<^verbatim>\<open>instance_id\<close> and \<^verbatim>\<open>messages\<close>, of a message \<^verbatim>\<open>role\<close> and
  \<^verbatim>\<open>content\<close>.
\<close>

record message =
  role :: pystr
  content :: pystr

record trajectory =
  instance_id :: pystr
  messages :: "message list"

text \<open>
  The file system, as far as the dataset files go: the paths that exist, each with the
  trajectories of its lines, and a log of the existence checks and the writes made. Every
  existing path is taken to be a readable dataset file.
\<close>

datatype fs_op = OpExists pystr | OpWrite pystr

record world =
  files :: "pystr \<rightharpoonup> trajectory list"
  ops :: "fs_op list"

definition read_jsonl :: "world \<Rightarrow> pystr \<Rightarrow> py_error + trajectory list" where
  \<comment> \<open>\<^verbatim>\<open>open(fp, "r")\<close> and \<^verbatim>\<open>json.loads\<close> of every line\<close>
  "read_jsonl w fp = (case files w fp of None \<Rightarrow> Inl FileNotFoundError | Some ds \<Rightarrow> Inr ds)"

definition path_exists_in :: "world \<Rightarrow> pystr \<Rightarrow> bool" where
  \<comment> \<open>\<^verbatim>\<open>os.path.exists(fp)\<close>\<close>
  "path_exists_in w fp = (files w fp \<noteq> None)"

definition write_jsonl :: "pystr \<Rightarrow> trajectory list \<Rightarrow> world \<Rightarrow> world" where
  \<comment> \<open>\<^verbatim>\<open>open(fp, "w")\<close> and one \<^verbatim>\<open>json.dumps\<close> line for each trajectory\<close>
  "write_jsonl fp ds w = w\<lparr>files := (files w)(fp \<mapsto> ds), ops := ops w @ [OpWrite fp]\<rparr>"

definition checked :: "pystr \<Rightarrow> world \<Rightarrow> world" where
  "checked fp w = w\<lparr>ops := ops w @ [OpExists fp]\<rparr>"

definition new_ops :: "world \<Rightarrow> world \<Rightarrow> fs_op list" where
  \<comment> \<open>what a run from \<open>w\<close> to \<open>w'\<close> has added to the log\<close>
  "new_ops w w' = drop (length (ops w)) (ops w')"

section \<open>The trajectory filter (\<^verbatim>\<open>sera/datagen/data/filter.py\<close>)\<close>

definition PATCH_EDIT_MAX :: nat where
  "PATCH_EDIT_MAX = 40"

definition TOOL_CALL_TOKEN_MAX :: rat where
  "TOOL_CALL_TOKEN_MAX = 600"

text \<open>
  The body of the loop of \<^verbatim>\<open>analyze_diff\<close> on one line; the state is the four local
  variables \<^verbatim>\<open>added\<close>, \<^verbatim>\<open>deleted\<close>, \<^verbatim>\<open>new_files\<close>,
  \<^verbatim>\<open>current_file_is_new\<close>.
\<close>

fun analyze_line :: "nat \<times> nat \<times> nat \<times> bool \<Rightarrow> pystr \<Rightarrow> nat \<times> nat \<times> nat \<times> bool" where
  "analyze_line (added, deleted, new_count, current_file_is_new) line =
     (let current_file_is_new1 =
            (if startswith line (lit ''diff --git'') then False else current_file_is_new);
          (new_count1, current_file_is_new2) =
            (if startswith line (lit ''new file mode'') then (new_count + 1, True)
             else (new_count, current_file_is_new1))
      in if startswith line (lit ''+++'') \<or> startswith line (lit ''---'') \<or>
            startswith line (lit ''diff --git'') \<or> startswith line (lit ''@@'')
         then (added, deleted, new_count1, current_file_is_new2)
         else (let added1 =
                     (if startswith line (lit ''+'') \<and> \<not> startswith line (lit ''+++'')
                      then added + 1 else added);
                   deleted1 =
                     (if startswith line (lit ''-'') \<and> \<not> startswith line (lit ''---'')
                      then deleted + 1 else deleted)
               in (added1, deleted1, new_count1, current_file_is_new2)))"

record diff_stats =
  added_lines :: nat
  deleted_lines :: nat
  new_files :: nat

definition analyze_diff :: "pystr \<Rightarrow> diff_stats" where
  "analyze_diff patch_text =
     (case foldl analyze_line (0, 0, 0, False) (splitlines patch_text) of
        (added, deleted, new_count, current_file_is_new) \<Rightarrow>
          \<lparr>added_lines = added, deleted_lines = deleted, new_files = new_count\<rparr>)"

text \<open>
  \<^verbatim>\<open>count_tokens(tokenizer, text)\<close> has two positional parameters. A call is
  modelled with the list of its positional arguments: one that does not bind both
  parameters raises \<^verbatim>\<open>TypeError\<close>. The tokenizer is a collaborator:
  \<^verbatim>\<open>tokenizer.encode(text, add_special_tokens=False)\<close> returns the token ids.
\<close>

type_synonym tokenizer = "pystr \<Rightarrow> nat list"

datatype py_arg = Tokenizer tokenizer | Str pystr

fun count_tokens :: "py_arg list \<Rightarrow> py_error + nat" where
  "count_tokens [Tokenizer tok, Str text] = Inr (length (tok text))"
| "count_tokens _ = Inl TypeError"

text \<open>
  The trajectory folders of mode \<^verbatim>\<open>long_edit\<close>: \<^verbatim>\<open>os.listdir(folder)\<close>, and
  for a folder and an instance the prediction file
  \<^verbatim>\<open><folder>/<inst_id>/<inst_id>.pred\<close>: absent, or present and failing inside the
  \<^verbatim>\<open>try\<close> (it cannot be opened, is not JSON, has no \<^verbatim>\<open>model_patch\<close>), or
  present with its \<^verbatim>\<open>model_patch\<close>, a string or \<^verbatim>\<open>null\<close>. Every folder is
  taken to be a directory that can be listed.
\<close>

datatype pred_file = PredMissing | PredUnreadable | PredPatch "pystr option"

record traj_folders =
  listdir :: "pystr \<Rightarrow> pystr list"
  pred :: "pystr \<Rightarrow> pystr \<Rightarrow> pred_file"

definition long_edit_inst ::
  "traj_folders \<Rightarrow> pystr set \<Rightarrow> pystr \<Rightarrow> pystr set \<Rightarrow> pystr \<Rightarrow> pystr set" where
  \<comment> \<open>one round of the loop over \<^verbatim>\<open>subdirs\<close>\<close>
  "long_edit_inst tf dataset_ids folder remove_ids inst_id =
     (if inst_id \<notin> dataset_ids then remove_ids
      else (let (patch, remove_ids1) =
                  (case pred tf folder inst_id of
                     PredMissing \<Rightarrow> (None, insert inst_id remove_ids)
                   | PredUnreadable \<Rightarrow> (None, insert inst_id remove_ids)
                   | PredPatch p \<Rightarrow> (p, remove_ids))
            in case patch of
                 None \<Rightarrow> remove_ids1
               | Some text \<Rightarrow>
                   if text = [] then remove_ids1
                   else (let diff_stats = analyze_diff text
                         in if added_lines diff_stats + deleted_lines diff_stats > PATCH_EDIT_MAX
                            then insert inst_id remove_ids1 else remove_ids1)))"

definition long_edit_folder ::
  "traj_folders \<Rightarrow> pystr set \<Rightarrow> pystr set \<Rightarrow> pystr \<Rightarrow> pystr set" where
  "long_edit_folder tf dataset_ids remove_ids folder =
     foldl (long_edit_inst tf dataset_ids folder) remove_ids (listdir tf folder)"

definition long_edit :: "traj_folders \<Rightarrow> pystr set \<Rightarrow> pystr list \<Rightarrow> pystr set" where
  "long_edit tf dataset_ids folders = foldl (long_edit_folder tf dataset_ids) {} folders"

definition TARGET_PREFIX :: pystr where
  "TARGET_PREFIX = lit ''OBSERVATION:'' @ 10 # lit ''Thank you for your work on this issue.''"

text \<open>
  The inner loop of mode \<^verbatim>\<open>user_length\<close> over the messages of one trajectory, with
  \<^verbatim>\<open>cur_lengths\<close> so far. The call is \<^verbatim>\<open>count_tokens(msg["content"])\<close>: one
  positional argument.
\<close>

fun user_tokens :: "message list \<Rightarrow> nat \<Rightarrow> py_error + nat" where
  "user_tokens [] cur_lengths = Inr cur_lengths"
| "user_tokens (msg # msgs) cur_lengths =
     (if role msg = lit ''user''
      then (if contains (content msg) TARGET_PREFIX then Inr cur_lengths
            else (case count_tokens [Str (content msg)] of
                    Inl e \<Rightarrow> Inl e
                  | Inr n \<Rightarrow> user_tokens msgs (cur_lengths + n)))
      else user_tokens msgs cur_lengths)"

definition user_length_flag :: "trajectory \<Rightarrow> py_error + bool" where
  \<comment> \<open>\<^verbatim>\<open>cur_lengths / (len(data["messages"]) // 2) > TOOL_CALL_TOKEN_MAX\<close>\<close>
  "user_length_flag data =
     bind_err (user_tokens (messages data) 0) (\<lambda>cur_lengths.
     bind_err (int_truediv (int cur_lengths) (int (length (messages data)) div 2)) (\<lambda>avg.
     Inr (avg > TOOL_CALL_TOKEN_MAX)))"

fun user_length :: "trajectory list \<Rightarrow> pystr set \<Rightarrow> py_error + pystr set" where
  "user_length [] remove_ids = Inr remove_ids"
| "user_length (data # rest) remove_ids =
     (case user_length_flag data of
        Inl e \<Rightarrow> Inl e
      | Inr flag \<Rightarrow>
          user_length rest (if flag then insert (instance_id data) remove_ids else remove_ids))"

definition flagged_ids ::
  "traj_folders \<Rightarrow> pystr list option \<Rightarrow> pystr \<Rightarrow> trajectory list \<Rightarrow> py_error + pystr set" where
  \<comment> \<open>the dispatch on \<^verbatim>\<open>args.filter_mode\<close>; \<^verbatim>\<open>args.folder\<close> is \<open>None\<close> when not given\<close>
  "flagged_ids tf folder filter_mode loaded_dataset =
     (if filter_mode = lit ''long_edit''
      then (case folder of
              None \<Rightarrow> Inl ValueError
            | Some folders \<Rightarrow>
                if folders = [] then Inl ValueError
                else Inr (long_edit tf (set (map instance_id loaded_dataset)) folders))
      else if filter_mode = lit ''user_length'' then user_length loaded_dataset {}
      else Inl RuntimeError)"

fun filter_load :: "world \<Rightarrow> pystr list \<Rightarrow> py_error + trajectory list" where
  "filter_load w [] = Inr []"
| "filter_load w (data_fp # fps) =
     (case read_jsonl w data_fp of
        Inl e \<Rightarrow> Inl e
      | Inr ds \<Rightarrow> (case filter_load w fps of Inl e \<Rightarrow> Inl e | Inr rest \<Rightarrow> Inr (ds @ rest)))"

definition filter_output_path :: "pystr list \<Rightarrow> pystr \<Rightarrow> py_error + pystr" where
  \<comment> \<open>\<^verbatim>\<open>f"{front}_filter_{args.filter_mode}{tail}"\<close> of \<^verbatim>\<open>splitext(args.dataset[0])\<close>\<close>
  "filter_output_path dataset filter_mode =
     (case dataset of
        [] \<Rightarrow> Inl IndexError
      | fp0 # _ \<Rightarrow>
          (let (front, tail) = splitext fp0
           in Inr (front @ lit ''_filter_'' @ filter_mode @ tail)))"

text \<open>
  What \<^verbatim>\<open>main\<close> computes before it touches the output: the loaded dataset, the
  output path and the ids to remove. The log line after the dispatch divides by
  \<^verbatim>\<open>len(loaded_dataset)\<close>.
\<close>

definition filter_plan ::
  "traj_folders \<Rightarrow> pystr list \<Rightarrow> pystr list option \<Rightarrow> pystr \<Rightarrow> world \<Rightarrow>
     py_error + (trajectory list \<times> pystr \<times> pystr set)" where
  "filter_plan tf dataset folder filter_mode w =
     bind_err (filter_load w dataset) (\<lambda>loaded_dataset.
     bind_err (filter_output_path dataset filter_mode) (\<lambda>new_fp.
     bind_err (flagged_ids tf folder filter_mode loaded_dataset) (\<lambda>remove_ids.
     if loaded_dataset = [] then Inl ZeroDivisionError
     else Inr (loaded_dataset, new_fp, remove_ids))))"

definition filter_main ::
  "traj_folders \<Rightarrow> pystr list \<Rightarrow> pystr list option \<Rightarrow> pystr \<Rightarrow> world \<Rightarrow>
     (py_error + unit) \<times> world" where
  "filter_main tf dataset folder filter_mode w =
     (case filter_plan tf dataset folder filter_mode w of
        Inl e \<Rightarrow> (Inl e, w)
      | Inr (loaded_dataset, new_fp, remove_ids) \<Rightarrow>
          if path_exists_in w new_fp then (Inl FileExistsError, checked new_fp w)
          else (Inr (),
                write_jsonl new_fp
                  (filter (\<lambda>d. instance_id d \<notin> remove_ids) loaded_dataset)
                  (checked new_fp w)))"

text \<open>
  The kinds of diff line in the words of the specification: a metadata line is a file
  header, a \<^verbatim>\<open>+++\<close> or \<^verbatim>\<open>---\<close> line or a hunk header; a line is an addition if it
  starts with \<^verbatim>\<open>+\<close> and is not a \<^verbatim>\<open>+++\<close> line, a deletion if it starts with
  \<^verbatim>\<open>-\<close> and is not a \<^verbatim>\<open>---\<close> line; a new-file marker starts with
  \<^verbatim>\<open>new file mode\<close>. \<open>count_lines P text\<close> is the number of lines of \<open>text\<close> of kind
  \<open>P\<close>.
\<close>

definition metadata_line :: "pystr \<Rightarrow> bool" where
  "metadata_line l =
     (startswith l (lit ''diff --git'') \<or> startswith l (lit ''+++'') \<or>
      startswith l (lit ''---'') \<or> startswith l (lit ''@@''))"

definition addition_line :: "pystr \<Rightarrow> bool" where
  "addition_line l = (startswith l (lit ''+'') \<and> \<not> startswith l (lit ''+++''))"

definition deletion_line :: "pystr \<Rightarrow> bool" where
  "deletion_line l = (startswith l (lit ''-'') \<and> \<not> startswith l (lit ''---''))"

definition new_file_marker :: "pystr \<Rightarrow> bool" where
  "new_file_marker l = startswith l (lit ''new file mode'')"

definition count_lines :: "(pystr \<Rightarrow> bool) \<Rightarrow> pystr \<Rightarrow> nat" where
  "count_lines P text = length (filter P (splitlines text))"

text \<open>
  The size of the edit a patch makes, and what the loop of mode \<^verbatim>\<open>long_edit\<close> does
  with a prediction file: whether it flags the instance.
\<close>

definition edit_size :: "pystr \<Rightarrow> nat" where
  "edit_size text = added_lines (analyze_diff text) + deleted_lines (analyze_diff text)"

definition pred_flagged :: "pred_file \<Rightarrow> bool" where
  "pred_flagged a =
     (case a of
        PredMissing \<Rightarrow> True
      | PredUnreadable \<Rightarrow> True
      | PredPatch None \<Rightarrow> False
      | PredPatch (Some text) \<Rightarrow> text \<noteq> [] \<and> edit_size text > PATCH_EDIT_MAX)"

text \<open>
  An example: the listing of a folder, with a missing prediction, a patch of 41 added
  lines, a patch of two changed lines and a prediction that cannot be read; the last
  instance is not in the dataset, and \<^verbatim>\<open>unrelated_1\<close> of the dataset is not listed.
\<close>

definition example_folders :: traj_folders where
  "example_folders =
     \<lparr>listdir = (\<lambda>folder. [lit ''a_1'', lit ''b_1'', lit ''c_1'', lit ''d_1'']),
      pred = (\<lambda>folder inst_id.
        if inst_id = lit ''a_1'' then PredMissing
        else if inst_id = lit ''b_1'' then PredPatch (Some (concat (replicate 41 (lit ''+x'' @ [10]))))
        else if inst_id = lit ''c_1'' then PredPatch (Some (lit ''+x'' @ 10 # lit ''-y''))
        else PredUnreadable)\<rparr>"

definition example_ids :: "pystr set" where
  "example_ids = {lit ''a_1'', lit ''b_1'', lit ''c_1'', lit ''unrelated_1''}"

text \<open>
  An example for mode \<^verbatim>\<open>user_length\<close>: a trajectory of nine messages, four of them
  of role \<^verbatim>\<open>user\<close>, none of them the end-of-episode message.
\<close>

definition example_messages :: "message list" where
  "example_messages =
     [\<lparr>role = lit ''system'', content = lit ''You are a helpful assistant.''\<rparr>,
      \<lparr>role = lit ''user'', content = lit ''Fix the bug.''\<rparr>,
      \<lparr>role = lit ''assistant'', content = lit ''ls''\<rparr>,
      \<lparr>role = lit ''user'', content = lit ''OBSERVATION: a b''\<rparr>,
      \<lparr>role = lit ''assistant'', content = lit ''cat a''\<rparr>,
      \<lparr>role = lit ''user'', content = lit ''OBSERVATION: x''\<rparr>,
      \<lparr>role = lit ''assistant'', content = lit ''submit''\<rparr>,
      \<lparr>role = lit ''user'', content = lit ''OBSERVATION: y''\<rparr>,
      \<lparr>role = lit ''assistant'', content = lit ''done''\<rparr>]"

section \<open>The dataset scaler (\<^verbatim>\<open>sera/datagen/data/scale.py\<close>)\<close>

text \<open>
  The collaborators of the scaler are parameters. \<^verbatim>\<open>filter_messages(ds)\<close> of
  \<^verbatim>\<open>sera.utils\<close> returns the dataset after the length filter; called with
  \<^verbatim>\<open>truncate=True, return_token_to_data_tuples=True\<close> its second result is the list of
  pairs of a truncation ratio and a trajectory. \<^verbatim>\<open>random.shuffle\<close> is one function
  for each of its three call sites, \<^verbatim>\<open>random.sample\<close> one for its one.
\<close>

record scale_env =
  filter_messages :: "trajectory list \<Rightarrow> trajectory list"
  token_to_data_tuples :: "trajectory list \<Rightarrow> (rat \<times> trajectory) list"
  shuffle_dataset :: "trajectory list \<Rightarrow> trajectory list"
  shuffle_repos :: "pystr list \<Rightarrow> pystr list"
  shuffle_tuples :: "(rat \<times> trajectory) list \<Rightarrow> (rat \<times> trajectory) list"
  sample :: "trajectory list \<Rightarrow> nat \<Rightarrow> trajectory list"

definition repo_name_of :: "trajectory \<Rightarrow> pystr" where
  \<comment> \<open>\<^verbatim>\<open>"_".join(data["instance_id"].split("_"))[:-1]\<close>\<close>
  "repo_name_of data = butlast (join 95 (split (instance_id data) 95))"

text \<open>
  \<^verbatim>\<open>repo_to_data\<close> is a dict whose keys are listed in the order of their insertion:
  an association list. \<open>repo_append\<close> is the body of the first loop of
  \<^verbatim>\<open>scale_repos\<close>.
\<close>

fun repo_append ::
  "(pystr \<times> trajectory list) list \<Rightarrow> pystr \<Rightarrow> trajectory \<Rightarrow> (pystr \<times> trajectory list) list" where
  "repo_append [] repo_name data = [(repo_name, [data])]"
| "repo_append ((k, ds) # rest) repo_name data =
     (if k = repo_name then (k, ds @ [data]) # rest
      else (k, ds) # repo_append rest repo_name data)"

definition repo_to_data :: "trajectory list \<Rightarrow> (pystr \<times> trajectory list) list" where
  "repo_to_data dataset = foldl (\<lambda>m data. repo_append m (repo_name_of data) data) [] dataset"

text \<open>
  The last loop of \<^verbatim>\<open>scale_repos\<close>; the log line reads
  \<^verbatim>\<open>repo_to_data[repo_name]\<close> before the test.
\<close>

fun add_repos ::
  "(pystr \<times> trajectory list) list \<Rightarrow> int \<Rightarrow> pystr list \<Rightarrow> trajectory list \<Rightarrow>
     py_error + trajectory list" where
  "add_repos rtd number [] new_dataset = Inr new_dataset"
| "add_repos rtd number (repo_name # rest) new_dataset =
     (case map_of rtd repo_name of
        None \<Rightarrow> Inl KeyError
      | Some repo_data \<Rightarrow>
          if int (length new_dataset) < number
          then add_repos rtd number rest (new_dataset @ repo_data)
          else Inr new_dataset)"

definition scale_repos ::
  "(pystr list \<Rightarrow> pystr list) \<Rightarrow> trajectory list \<Rightarrow> int \<Rightarrow> py_error + trajectory list" where
  "scale_repos shuffle dataset number =
     (let rtd = repo_to_data dataset;
          repo_order = shuffle (map fst rtd)
      in add_repos rtd number repo_order [])"

text \<open>\<^verbatim>\<open>xs[i]\<close> and \<^verbatim>\<open>xs[:k]\<close> of a list, for an int that may be negative.\<close>

definition py_index :: "'a list \<Rightarrow> int \<Rightarrow> py_error + 'a" where
  "py_index xs i =
     (if 0 \<le> i \<and> i < int (length xs) then Inr (xs ! nat i)
      else if i < 0 \<and> - int (length xs) \<le> i then Inr (xs ! nat (int (length xs) + i))
      else Inl IndexError)"

definition slice_to :: "'a list \<Rightarrow> int \<Rightarrow> 'a list" where
  "slice_to xs k = (if k < 0 then take (nat (int (length xs) + k)) xs else take (nat k) xs)"

text \<open>
  \<^verbatim>\<open>sorted(xs, key=lambda x: x[0], reverse=True)\<close>: descending in the ratio, and
  stable (records of equal ratio keep their order).
\<close>

definition sorted_desc :: "(rat \<times> 'a) list \<Rightarrow> (rat \<times> 'a) list" where
  "sorted_desc xs = sort_key (\<lambda>x. - fst x) xs"

definition scale_tokens ::
  "(trajectory list \<Rightarrow> (rat \<times> trajectory) list) \<Rightarrow>
   ((rat \<times> trajectory) list \<Rightarrow> (rat \<times> trajectory) list) \<Rightarrow>
   trajectory list \<Rightarrow> int \<Rightarrow> rat option \<Rightarrow> py_error + trajectory list" where
  "scale_tokens tuples_of shuffle dataset number threshold =
     (let tuples = shuffle (tuples_of dataset);
          number1 = min number (int (length tuples));
          sorted_token_to_tuples = sorted_desc tuples
      in bind_err (py_index sorted_token_to_tuples 0) (\<lambda>first.
         bind_err (py_index sorted_token_to_tuples (number1 - 1)) (\<lambda>last.
         Inr (case threshold of
                None \<Rightarrow> slice_to (map snd sorted_token_to_tuples) number1
              | Some th \<Rightarrow>
                  if th = 0 then slice_to (map snd sorted_token_to_tuples) number1
                  else slice_to
                         (map snd (filter (\<lambda>(ratio, seq). ratio \<ge> th) sorted_token_to_tuples))
                         number1))))"

text \<open>The loading loop of \<^verbatim>\<open>main\<close>, with the length filter on each file.\<close>

fun scale_load :: "scale_env \<Rightarrow> bool \<Rightarrow> pystr \<Rightarrow> world \<Rightarrow> pystr list \<Rightarrow> py_error + trajectory list" where
  "scale_load env no_filter type w [] = Inr []"
| "scale_load env no_filter type w (dataset_fp # fps) =
     (case read_jsonl w dataset_fp of
        Inl e \<Rightarrow> Inl e
      | Inr ds \<Rightarrow>
          (let ds1 = (if \<not> no_filter \<and> \<not> type = lit ''tokens'' then filter_messages env ds else ds)
           in case scale_load env no_filter type w fps of
                Inl e \<Rightarrow> Inl e
              | Inr rest \<Rightarrow> Inr (ds1 @ rest)))"

definition target_number :: "rat \<Rightarrow> nat \<Rightarrow> int" where
  \<comment> \<open>\<^verbatim>\<open>number\<close> of \<^verbatim>\<open>main\<close>, from \<^verbatim>\<open>args.number\<close> and \<^verbatim>\<open>len(total_ds)\<close>\<close>
  "target_number args_number len_total_ds =
     py_int (if args_number > of_nat len_total_ds then of_nat len_total_ds
             else if args_number > 0 \<and> args_number < 1
             then float_mul args_number (of_nat len_total_ds)
             else args_number)"

definition scale_dispatch ::
  "scale_env \<Rightarrow> pystr \<Rightarrow> int \<Rightarrow> rat option \<Rightarrow> trajectory list \<Rightarrow>
     py_error + (trajectory list \<times> int)" where
  \<comment> \<open>the dispatch on \<^verbatim>\<open>args.type\<close>: \<^verbatim>\<open>scaled_ds\<close> and \<^verbatim>\<open>number\<close> after it\<close>
  "scale_dispatch env type number threshold total_ds =
     (if type = lit ''repo''
      then bind_err (scale_repos (shuffle_repos env) total_ds number) (\<lambda>scaled_ds.
           Inr (scaled_ds, int (length scaled_ds)))
      else if type = lit ''tokens''
      then bind_err
             (scale_tokens (token_to_data_tuples env) (shuffle_tuples env) total_ds number threshold)
             (\<lambda>scaled_ds. Inr (scaled_ds, int (length scaled_ds)))
      else if type = lit ''random''
      then (if number < 0 \<or> number > int (length total_ds) then Inl ValueError
            else Inr (sample env total_ds (nat number), number))
      else Inl RuntimeError)"

definition scale_output_path ::
  "pystr list \<Rightarrow> pystr \<Rightarrow> pystr option \<Rightarrow> int \<Rightarrow> py_error + pystr" where
  "scale_output_path dataset type output_file number =
     (let fp = (case output_file of
                  None \<Rightarrow> type @ lit ''_'' @ str_int number @ lit ''.jsonl''
                | Some name \<Rightarrow>
                    if name = [] then type @ lit ''_'' @ str_int number @ lit ''.jsonl''
                    else name @ lit ''.jsonl'')
      in case dataset of
           [] \<Rightarrow> Inl IndexError
         | fp0 # _ \<Rightarrow> Inr (path_join (dirname fp0) fp))"

text \<open>
  What \<^verbatim>\<open>main\<close> computes before it touches the output: \<^verbatim>\<open>scaled_ds\<close> and the
  output path \<^verbatim>\<open>fp\<close>.
\<close>

definition scale_plan ::
  "scale_env \<Rightarrow> pystr list \<Rightarrow> pystr \<Rightarrow> rat \<Rightarrow> rat option \<Rightarrow> pystr option \<Rightarrow> bool \<Rightarrow> world \<Rightarrow>
     py_error + (trajectory list \<times> pystr)" where
  "scale_plan env dataset type args_number threshold output_file no_filter w =
     bind_err (scale_load env no_filter type w dataset) (\<lambda>total_ds.
     let number = target_number args_number (length total_ds);
         total_ds1 = shuffle_dataset env total_ds
     in bind_err (scale_dispatch env type number threshold total_ds1) (\<lambda>(scaled_ds, number1).
        bind_err (scale_output_path dataset type output_file number1) (\<lambda>fp.
        Inr (scaled_ds, fp))))"

definition scale_main ::
  "scale_env \<Rightarrow> pystr list \<Rightarrow> pystr \<Rightarrow> rat \<Rightarrow> rat option \<Rightarrow> pystr option \<Rightarrow> bool \<Rightarrow> world \<Rightarrow>
     (py_error + unit) \<times> world" where
  "scale_main env dataset type args_number threshold output_file no_filter w =
     (case scale_plan env dataset type args_number threshold output_file no_filter w of
        Inl e \<Rightarrow> (Inl e, w)
      | Inr (scaled_ds, fp) \<Rightarrow>
          if scaled_ds \<noteq> []
          then (if path_exists_in w fp then (Inl FileExistsError, checked fp w)
                else (Inr (), write_jsonl fp scaled_ds (checked fp w)))
          else (Inr (), w))"

text \<open>
  An example: a dataset file of four trajectories, beside it the files that the tools
  would name their outputs; and collaborators for the scaler that give every trajectory
  the ratio \<open>1/2\<close>, reverse where the source shuffles and sample from the front.
\<close>

definition example_dataset :: "trajectory list" where
  "example_dataset =
     [\<lparr>instance_id = lit ''a_1'', messages = []\<rparr>,
      \<lparr>instance_id = lit ''b_1'', messages = []\<rparr>,
      \<lparr>instance_id = lit ''c_1'', messages = []\<rparr>,
      \<lparr>instance_id = lit ''unrelated_1'', messages = []\<rparr>]"

definition example_world :: world where
  "example_world =
     \<lparr>files =
        [lit ''exp/data.jsonl'' \<mapsto> example_dataset,
         lit ''exp/data_filter_long_edit.jsonl'' \<mapsto> [],
         lit ''exp/repo_0.jsonl'' \<mapsto> [],
         lit ''exp/tokens_0.jsonl'' \<mapsto> [],
         lit ''exp/random_2.jsonl'' \<mapsto> []],
      ops = []\<rparr>"

definition example_scale_env :: scale_env where
  "example_scale_env =
     \<lparr>filter_messages = (\<lambda>ds. ds),
      token_to_data_tuples = map (\<lambda>d. (1 / 2, d)),
      shuffle_dataset = rev,
      shuffle_repos = rev,
      shuffle_tuples = rev,
      sample = (\<lambda>ds k. take k ds)\<rparr>"

text \<open>
  The repository group of a key in a dataset: its trajectories of that key, in their
  order; and the keys of \<^verbatim>\<open>repo_to_data\<close> in the order of their insertion.
\<close>

definition repo_group :: "trajectory list \<Rightarrow> pystr \<Rightarrow> trajectory list" where
  "repo_group dataset k = filter (\<lambda>d. repo_name_of d = k) dataset"

definition repo_keys :: "trajectory list \<Rightarrow> pystr list" where
  "repo_keys dataset = map fst (repo_to_data dataset)"

text \<open>
  Examples for the strategies: three trajectories of two repositories, and ratios for the
  four trajectories of the example dataset.
\<close>

definition example_repos :: "trajectory list" where
  "example_repos =
     [\<lparr>instance_id = lit ''django_1'', messages = []\<rparr>,
      \<lparr>instance_id = lit ''flask_1'', messages = []\<rparr>,
      \<lparr>instance_id = lit ''django_2'', messages = []\<rparr>]"

definition example_tuples :: "trajectory list \<Rightarrow> (rat \<times> trajectory) list" where
  "example_tuples ds = zip [1, 1 / 2, 19 / 20, 9 / 10] ds"

chapter \<open>Properties\<close>

section \<open>The stage pipeline\<close>

lemmas run_defs = run_pipeline_def run_generate_def run_distill_one_def run_distill_two_def
  run_eval_def run_postprocess_def bind_err_def attr_def emit_def new_experiment_def

lemma stage_map_eval: "map_of stage_map (lit ''eval'') = Some 3"
  by (simp add: stage_map_def lit_def)

text \<open>
  C1, as amended. \<^verbatim>\<open>_run_pipeline\<close> calls all five stage methods, in their order, for
  every requested index \<open>S\<close>, and none of them raises: the stage of index \<open>i\<close> is entered
  with \<^verbatim>\<open>skip\<close> set exactly when \<open>i < S\<close>. So the stages before the requested one run in
  skip mode and the requested stage and every later one run in full mode:
  \<^verbatim>\<open>generate_method\<close> is called exactly when \<open>S \<le> 0\<close>, \<^verbatim>\<open>eval_loop\<close> exactly when
  \<open>S \<le> 3\<close>, and \<^verbatim>\<open>format_and_save\<close> twice whatever \<open>S\<close> is. Requesting \<^verbatim>\<open>eval\<close>
  runs generate, distill_stage_one and distill_stage_two in skip mode, and eval and
  postprocess in full mode.
\<close>

theorem run_pipeline_stage_modes:
  "(\<exists>e. run_pipeline env S new_experiment = Inr e \<and>
        stage_runs (trace e) =
          map (\<lambda>st. (st, stage_index st < S))
            [Generate, DistillOne, DistillTwo, Eval, Postprocess] \<and>
        (GenerateMethod \<in> set (trace e)) = (S \<le> 0) \<and>
        list_ex is_eval_loop (trace e) = (S \<le> 3) \<and>
        length (filter is_format_and_save (trace e)) = 2) \<and>
   stage_runs_of (run env (lit ''eval'') new_experiment) =
     [(Generate, True), (DistillOne, True), (DistillTwo, True),
      (Eval, False), (Postprocess, False)]"
proof
  show "\<exists>e. run_pipeline env S new_experiment = Inr e \<and>
        stage_runs (trace e) =
          map (\<lambda>st. (st, stage_index st < S))
            [Generate, DistillOne, DistillTwo, Eval, Postprocess] \<and>
        (GenerateMethod \<in> set (trace e)) = (S \<le> 0) \<and>
        list_ex is_eval_loop (trace e) = (S \<le> 3) \<and>
        length (filter is_format_and_save (trace e)) = 2"
    by (simp add: run_defs Let_def split: prod.splits)
next
  show "stage_runs_of (run env (lit ''eval'') new_experiment) =
     [(Generate, True), (DistillOne, True), (DistillTwo, True),
      (Eval, False), (Postprocess, False)]"
    by (simp add: run_def stage_map_eval stage_runs_of_def run_defs Let_def split: prod.splits)
qed

text \<open>
  C1 as stated fails: with stage \<^verbatim>\<open>eval\<close> requested, \<^verbatim>\<open>_run_postprocess\<close> is
  entered, with \<^verbatim>\<open>skip=False\<close>, and calls \<^verbatim>\<open>format_and_save\<close>.
\<close>

theorem eval_runs_postprocess:
  "(Postprocess, False) \<in> set (stage_runs_of (run example_env (lit ''eval'') new_experiment)) \<and>
   list_ex is_format_and_save (trace_of (run example_env (lit ''eval'') new_experiment))"
  by (simp add: run_def stage_map_eval stage_runs_of_def trace_of_def run_defs Let_def
      example_env_def)

section \<open>The diff analyzer\<close>

lemma analyze_line_step:
  "\<exists>b'. analyze_line (a, d, n, b) l =
     (a + (if addition_line l \<and> \<not> metadata_line l then 1 else 0),
      d + (if deletion_line l \<and> \<not> metadata_line l then 1 else 0),
      n + (if new_file_marker l then 1 else 0), b')"
  by (auto simp add: Let_def metadata_line_def addition_line_def deletion_line_def
      new_file_marker_def)

lemma foldl_analyze_line:
  "\<exists>b'. foldl analyze_line (a, d, n, b) ls =
     (a + length (filter (\<lambda>l. addition_line l \<and> \<not> metadata_line l) ls),
      d + length (filter (\<lambda>l. deletion_line l \<and> \<not> metadata_line l) ls),
      n + length (filter new_file_marker ls), b')"
proof (induction ls arbitrary: a d n b)
  case Nil
  show ?case by simp
next
  case (Cons l ls)
  obtain b1 where step: "analyze_line (a, d, n, b) l =
     (a + (if addition_line l \<and> \<not> metadata_line l then 1 else 0),
      d + (if deletion_line l \<and> \<not> metadata_line l then 1 else 0),
      n + (if new_file_marker l then 1 else 0), b1)"
    using analyze_line_step by blast
  obtain b2 where "foldl analyze_line
     (a + (if addition_line l \<and> \<not> metadata_line l then 1 else 0),
      d + (if deletion_line l \<and> \<not> metadata_line l then 1 else 0),
      n + (if new_file_marker l then 1 else 0), b1) ls =
     (a + (if addition_line l \<and> \<not> metadata_line l then 1 else 0)
        + length (filter (\<lambda>l. addition_line l \<and> \<not> metadata_line l) ls),
      d + (if deletion_line l \<and> \<not> metadata_line l then 1 else 0)
        + length (filter (\<lambda>l. deletion_line l \<and> \<not> metadata_line l) ls),
      n + (if new_file_marker l then 1 else 0) + length (filter new_file_marker ls), b2)"
    using Cons.IH by blast
  with step show ?case
    by (simp del: analyze_line.simps)
qed

lemma analyze_diff_eq:
  "analyze_diff text =
     \<lparr>added_lines = count_lines (\<lambda>l. addition_line l \<and> \<not> metadata_line l) text,
      deleted_lines = count_lines (\<lambda>l. deletion_line l \<and> \<not> metadata_line l) text,
      new_files = count_lines new_file_marker text\<rparr>"
proof -
  obtain b' where
    "foldl analyze_line (0, 0, 0, False) (splitlines text) =
       (0 + length (filter (\<lambda>l. addition_line l \<and> \<not> metadata_line l) (splitlines text)),
        0 + length (filter (\<lambda>l. deletion_line l \<and> \<not> metadata_line l) (splitlines text)),
        0 + length (filter new_file_marker (splitlines text)), b')"
    using foldl_analyze_line by blast
  then show ?thesis
    by (simp add: analyze_diff_def count_lines_def)
qed

text \<open>
  C6. The statistics \<^verbatim>\<open>analyze_diff\<close> returns for a diff text are the number of its
  added content lines, the number of its removed content lines (both outside the metadata
  lines) and the number of its new-file markers; for the empty text they are \<open>(0, 0, 0)\<close>.
\<close>

theorem analyze_diff_counts:
  "analyze_diff text =
     \<lparr>added_lines = count_lines (\<lambda>l. addition_line l \<and> \<not> metadata_line l) text,
      deleted_lines = count_lines (\<lambda>l. deletion_line l \<and> \<not> metadata_line l) text,
      new_files = count_lines new_file_marker text\<rparr> \<and>
   analyze_diff [] = \<lparr>added_lines = 0, deleted_lines = 0, new_files = 0\<rparr>"
  by (simp add: analyze_diff_eq count_lines_def splitlines_def)

lemma addition_line_outside_metadata:
  "(addition_line l \<and> \<not> metadata_line l) = addition_line l"
  by (cases l) (auto simp: addition_line_def metadata_line_def startswith_def lit_def)

lemma deletion_line_outside_metadata:
  "(deletion_line l \<and> \<not> metadata_line l) = deletion_line l"
  by (cases l) (auto simp: deletion_line_def metadata_line_def startswith_def lit_def)

section \<open>Mode \<^verbatim>\<open>long_edit\<close> of the filter\<close>

lemma edit_size_empty: "edit_size [] = 0"
  by (simp add: edit_size_def analyze_diff_def splitlines_def)

lemma long_edit_inst_iff:
  "i \<in> long_edit_inst tf ids f R x \<longleftrightarrow>
     i \<in> R \<or> (i = x \<and> x \<in> ids \<and> pred_flagged (pred tf f x))"
  by (auto simp: long_edit_inst_def pred_flagged_def edit_size_def Let_def
      split: pred_file.splits option.splits)

lemma foldl_long_edit_inst_iff:
  "i \<in> foldl (long_edit_inst tf ids f) R xs \<longleftrightarrow>
     i \<in> R \<or> (i \<in> set xs \<and> i \<in> ids \<and> pred_flagged (pred tf f i))"
  by (induction xs arbitrary: R) (auto simp: long_edit_inst_iff)

lemma long_edit_folder_iff:
  "i \<in> long_edit_folder tf ids R f \<longleftrightarrow>
     i \<in> R \<or> (i \<in> set (listdir tf f) \<and> i \<in> ids \<and> pred_flagged (pred tf f i))"
  by (simp add: long_edit_folder_def foldl_long_edit_inst_iff)

lemma foldl_long_edit_folder_iff:
  "i \<in> foldl (long_edit_folder tf ids) R fs \<longleftrightarrow>
     i \<in> R \<or> (\<exists>f \<in> set fs. i \<in> set (listdir tf f) \<and> i \<in> ids \<and> pred_flagged (pred tf f i))"
  by (induction fs arbitrary: R) (auto simp: long_edit_folder_iff)

lemma long_edit_iff:
  "i \<in> long_edit tf ids folders \<longleftrightarrow>
     (\<exists>f \<in> set folders. i \<in> set (listdir tf f) \<and> i \<in> ids \<and> pred_flagged (pred tf f i))"
  by (simp add: long_edit_def foldl_long_edit_folder_iff)

text \<open>
  C4. In mode \<^verbatim>\<open>long_edit\<close>, for an instance listed in a trajectory folder and
  present in the dataset: a missing or unreadable prediction flags it; a patch with
  \<open>added_lines + deleted_lines > 40\<close> flags it; an instance whose patch has at most 40
  changed lines wherever it is listed is not flagged; an instance listed in no folder is
  not flagged. With the folders given, these ids are what the dispatch of \<^verbatim>\<open>main\<close>
  returns.
\<close>

theorem long_edit_flags:
  "(f \<in> set folders \<and> i \<in> set (listdir tf f) \<and> i \<in> ids \<and>
      (pred tf f i = PredMissing \<or> pred tf f i = PredUnreadable)
      \<longrightarrow> i \<in> long_edit tf ids folders) \<and>
   (f \<in> set folders \<and> i \<in> set (listdir tf f) \<and> i \<in> ids \<and>
      pred tf f i = PredPatch (Some text) \<and> edit_size text > 40
      \<longrightarrow> i \<in> long_edit tf ids folders) \<and>
   ((\<forall>f \<in> set folders. i \<in> set (listdir tf f) \<longrightarrow>
        (\<exists>text. pred tf f i = PredPatch (Some text) \<and> edit_size text \<le> 40))
      \<longrightarrow> i \<notin> long_edit tf ids folders) \<and>
   ((\<forall>f \<in> set folders. i \<notin> set (listdir tf f)) \<longrightarrow> i \<notin> long_edit tf ids folders) \<and>
   (folders \<noteq> [] \<longrightarrow>
      flagged_ids tf (Some folders) (lit ''long_edit'') loaded_dataset =
        Inr (long_edit tf (set (map instance_id loaded_dataset)) folders))"
proof (intro conjI impI)
  assume "f \<in> set folders \<and> i \<in> set (listdir tf f) \<and> i \<in> ids \<and>
      (pred tf f i = PredMissing \<or> pred tf f i = PredUnreadable)"
  then show "i \<in> long_edit tf ids folders"
    by (auto simp: long_edit_iff pred_flagged_def)
next
  assume a: "f \<in> set folders \<and> i \<in> set (listdir tf f) \<and> i \<in> ids \<and>
      pred tf f i = PredPatch (Some text) \<and> edit_size text > 40"
  then have "text \<noteq> []"
    using edit_size_empty by auto
  with a have "pred_flagged (pred tf f i)"
    by (simp add: pred_flagged_def PATCH_EDIT_MAX_def)
  with a show "i \<in> long_edit tf ids folders"
    by (auto simp: long_edit_iff)
next
  assume "\<forall>f \<in> set folders. i \<in> set (listdir tf f) \<longrightarrow>
        (\<exists>text. pred tf f i = PredPatch (Some text) \<and> edit_size text \<le> 40)"
  then show "i \<notin> long_edit tf ids folders"
    by (auto simp: long_edit_iff pred_flagged_def PATCH_EDIT_MAX_def)
next
  assume "\<forall>f \<in> set folders. i \<notin> set (listdir tf f)"
  then show "i \<notin> long_edit tf ids folders"
    by (auto simp: long_edit_iff)
next
  assume "folders \<noteq> []"
  then show "flagged_ids tf (Some folders) (lit ''long_edit'') loaded_dataset =
        Inr (long_edit tf (set (map instance_id loaded_dataset)) folders)"
    by (simp add: flagged_ids_def)
qed

lemma splitlines_plus_line:
  "splitlines (lit ''+x'' @ 10 # rest) = lit ''+x'' # splitlines rest"
  by (cases rest) (simp_all add: splitlines_def lit_def line_boundary_def)

lemma splitlines_plus_lines:
  "splitlines (concat (replicate n (lit ''+x'' @ [10]))) = replicate n (lit ''+x'')"
proof (induction n)
  case 0
  show ?case by (simp add: splitlines_def)
next
  case (Suc n)
  then show ?case using splitlines_plus_line by simp
qed

lemma edit_size_b: "edit_size (concat (replicate 41 (lit ''+x'' @ [10]))) = 41"
  by (simp add: edit_size_def analyze_diff_eq count_lines_def splitlines_plus_lines
      addition_line_outside_metadata deletion_line_outside_metadata)
    (simp add: addition_line_def deletion_line_def startswith_def lit_def)

lemma edit_size_c: "edit_size (lit ''+x'' @ 10 # lit ''-y'') = 2"
  by (simp add: edit_size_def analyze_diff_def splitlines_def lit_def line_boundary_def
      startswith_def Let_def)

lemma example_listing:
  "i \<in> set (listdir example_folders f) \<longleftrightarrow>
     i = lit ''a_1'' \<or> i = lit ''b_1'' \<or> i = lit ''c_1'' \<or> i = lit ''d_1''"
  by (simp add: example_folders_def)

theorem long_edit_flags_witness:
  "lit ''a_1'' \<in> long_edit example_folders example_ids [lit ''traj''] \<and>
   lit ''b_1'' \<in> long_edit example_folders example_ids [lit ''traj''] \<and>
   lit ''c_1'' \<notin> long_edit example_folders example_ids [lit ''traj''] \<and>
   lit ''unrelated_1'' \<notin> long_edit example_folders example_ids [lit ''traj'']"
proof -
  have pa: "pred example_folders (lit ''traj'') (lit ''a_1'') = PredMissing"
    by (simp add: example_folders_def)
  have pb: "pred example_folders (lit ''traj'') (lit ''b_1'') =
      PredPatch (Some (concat (replicate 41 (lit ''+x'' @ [10]))))"
    by (simp add: example_folders_def lit_def)
  have pc: "pred example_folders (lit ''traj'') (lit ''c_1'') =
      PredPatch (Some (lit ''+x'' @ 10 # lit ''-y''))"
    by (simp add: example_folders_def lit_def)
  have ids: "lit ''a_1'' \<in> example_ids" "lit ''b_1'' \<in> example_ids"
    by (simp_all add: example_ids_def)
  have nu: "lit ''unrelated_1'' \<notin> set (listdir example_folders (lit ''traj''))"
    by (simp add: example_folders_def lit_def)
  have a: "lit ''a_1'' \<in> long_edit example_folders example_ids [lit ''traj'']"
    using long_edit_flags [of "lit ''traj''" "[lit ''traj'']" "lit ''a_1''" example_folders
        example_ids] pa ids
    by (simp add: example_listing)
  have b: "lit ''b_1'' \<in> long_edit example_folders example_ids [lit ''traj'']"
    using long_edit_flags [of "lit ''traj''" "[lit ''traj'']" "lit ''b_1''" example_folders
        example_ids "concat (replicate 41 (lit ''+x'' @ [10]))"] pb ids edit_size_b
    by (simp add: example_listing)
  have c: "lit ''c_1'' \<notin> long_edit example_folders example_ids [lit ''traj'']"
    using long_edit_flags [of "lit ''traj''" "[lit ''traj'']" "lit ''c_1''" example_folders
        example_ids] pc edit_size_c
    by simp
  have d: "lit ''unrelated_1'' \<notin> long_edit example_folders example_ids [lit ''traj'']"
    using long_edit_flags [of "lit ''traj''" "[lit ''traj'']" "lit ''unrelated_1''"
        example_folders example_ids] nu
    by simp
  from a b c d show ?thesis by simp
qed

section \<open>Mode \<^verbatim>\<open>user_length\<close> of the filter\<close>

lemma user_tokens_cases:
  "user_tokens msgs cur = Inr cur \<or> user_tokens msgs cur = Inl TypeError"
  by (induction msgs arbitrary: cur) auto

lemma int_truediv_zero:
  "int_truediv 0 b = (if b = 0 then Inl ZeroDivisionError else Inr 0)"
  by (simp add: int_truediv_def round_to_double_def)

lemma user_length_flag_cases:
  "user_length_flag data = Inl TypeError \<or> user_length_flag data = Inl ZeroDivisionError \<or>
   user_length_flag data = Inr False"
proof (cases "user_tokens (messages data) 0 = Inr 0")
  case True
  then show ?thesis
    by (cases "int (length (messages data)) div 2 = 0")
      (simp_all add: user_length_flag_def bind_err_def int_truediv_zero
        TOOL_CALL_TOKEN_MAX_def)
next
  case False
  then have "user_tokens (messages data) 0 = Inl TypeError"
    using user_tokens_cases [of "messages data" 0] by simp
  then show ?thesis
    by (simp add: user_length_flag_def bind_err_def)
qed

lemma user_tokens_example: "user_tokens example_messages 0 = Inl TypeError"
  by code_simp

text \<open>
  C2 does not hold of the code. The loop of mode \<^verbatim>\<open>user_length\<close> calls
  \<^verbatim>\<open>count_tokens\<close> with the message content alone, without the tokenizer: the first
  message of role \<^verbatim>\<open>user\<close> that does not hold the sentinel raises
  \<^verbatim>\<open>TypeError\<close>. The trajectory of nine messages with four user messages is not
  left unflagged, it raises; and whatever the trajectory, the test raises or does not
  flag it: no average above 600 is ever found.
\<close>

theorem user_length_type_error:
  "user_length_flag \<lparr>instance_id = i, messages = example_messages\<rparr> = Inl TypeError \<and>
   length example_messages = 9 \<and>
   length (filter (\<lambda>m. role m = lit ''user'') example_messages) = 4 \<and>
   (user_length_flag data = Inl TypeError \<or> user_length_flag data = Inl ZeroDivisionError \<or>
    user_length_flag data = Inr False)"
proof -
  have "user_length_flag \<lparr>instance_id = i, messages = example_messages\<rparr> = Inl TypeError"
    by (simp add: user_length_flag_def bind_err_def user_tokens_example)
  moreover have "length example_messages = 9"
    by (simp add: example_messages_def)
  moreover have "length (filter (\<lambda>m. role m = lit ''user'') example_messages) = 4"
    by (simp add: example_messages_def lit_def)
  ultimately show ?thesis
    using user_length_flag_cases [of data] by simp
qed

text \<open>
  C3 does not hold of the code. The division by \<^verbatim>\<open>len(data["messages"]) // 2\<close> is
  not guarded: a trajectory without messages raises \<^verbatim>\<open>ZeroDivisionError\<close>, one
  with a single message raises it too unless the call of \<^verbatim>\<open>count_tokens\<close> has
  raised \<^verbatim>\<open>TypeError\<close> before, and \<^verbatim>\<open>main\<close> ends with that exception, the
  files untouched.
\<close>

theorem user_length_short_trajectory:
  "user_length_flag \<lparr>instance_id = i, messages = []\<rparr> = Inl ZeroDivisionError \<and>
   user_length_flag \<lparr>instance_id = i, messages = [m]\<rparr> =
     (if role m = lit ''user'' \<and> \<not> contains (content m) TARGET_PREFIX then Inl TypeError
      else Inl ZeroDivisionError) \<and>
   filter_main tf [fp] folder (lit ''user_length'')
       \<lparr>files = [fp \<mapsto> [\<lparr>instance_id = i, messages = []\<rparr>]], ops = []\<rparr> =
     (Inl ZeroDivisionError,
      \<lparr>files = [fp \<mapsto> [\<lparr>instance_id = i, messages = []\<rparr>]], ops = []\<rparr>)"
proof -
  have e: "user_length_flag \<lparr>instance_id = i, messages = []\<rparr> = Inl ZeroDivisionError"
    by (simp add: user_length_flag_def bind_err_def int_truediv_zero)
  have s: "user_length_flag \<lparr>instance_id = i, messages = [m]\<rparr> =
     (if role m = lit ''user'' \<and> \<not> contains (content m) TARGET_PREFIX then Inl TypeError
      else Inl ZeroDivisionError)"
    by (simp add: user_length_flag_def bind_err_def int_truediv_zero)
  have mode: "lit ''user_length'' \<noteq> lit ''long_edit''"
    by (simp add: lit_def)
  have "filter_plan tf [fp] folder (lit ''user_length'')
       \<lparr>files = [fp \<mapsto> [\<lparr>instance_id = i, messages = []\<rparr>]], ops = []\<rparr> =
       Inl ZeroDivisionError"
    using e mode
    by (simp add: filter_plan_def bind_err_def read_jsonl_def filter_output_path_def
        flagged_ids_def split: prod.splits)
  then have m: "filter_main tf [fp] folder (lit ''user_length'')
       \<lparr>files = [fp \<mapsto> [\<lparr>instance_id = i, messages = []\<rparr>]], ops = []\<rparr> =
     (Inl ZeroDivisionError,
      \<lparr>files = [fp \<mapsto> [\<lparr>instance_id = i, messages = []\<rparr>]], ops = []\<rparr>)"
    by (simp add: filter_main_def)
  from e s m show ?thesis by simp
qed

section \<open>The target size of the scaler\<close>

lemma float_mul_quarter: "float_mul (1 / 4) 400 = 100"
  by code_simp

text \<open>
  C9. The target \<^verbatim>\<open>number\<close> of the scaler: for \<open>n \<ge> 1\<close> it is \<open>n\<close> as an absolute
  count (truncated to an int), clamped to the size of the corpus; for \<open>0 < n < 1\<close> it is
  the float product of \<open>n\<close> and the size of the corpus, truncated to an int; for
  \<open>n = 0.25\<close> and a corpus of 400 trajectories it is 100.
\<close>

theorem target_number_interpretation:
  "(1 \<le> n \<longrightarrow> target_number n len = min (py_int n) (int len)) \<and>
   (0 < n \<and> n < 1 \<longrightarrow> target_number n len = py_int (float_mul n (of_nat len))) \<and>
   target_number (1 / 4) 400 = 100"
proof (intro conjI impI)
  assume n: "1 \<le> n"
  show "target_number n len = min (py_int n) (int len)"
  proof (cases "n > of_nat len")
    case True
    then have "int len \<le> \<lfloor>n\<rfloor>"
      by (simp add: le_floor_iff)
    with True n show ?thesis
      by (simp add: target_number_def py_int_def)
  next
    case False
    then have "\<lfloor>n\<rfloor> \<le> int len"
      by (simp add: floor_le_iff)
    with False n show ?thesis
      by (simp add: target_number_def py_int_def)
  qed
next
  assume n: "0 < n \<and> n < 1"
  show "target_number n len = py_int (float_mul n (of_nat len))"
  proof (cases "n > of_nat len")
    case True
    with n have "len = 0" by (cases len) auto
    with n show ?thesis
      by (simp add: target_number_def py_int_def float_mul_def round_to_double_def)
  next
    case False
    with n show ?thesis
      by (simp add: target_number_def)
  qed
next
  show "target_number (1 / 4) 400 = 100"
    by (simp add: target_number_def float_mul_quarter py_int_def)
qed

lemma py_int_example: "py_int (5 / 2) = 2"
  by code_simp

theorem target_number_interpretation_witness:
  "target_number 1000 400 = 400 \<and> target_number (5 / 2) 400 = 2 \<and>
   target_number (1 / 2) 10 = py_int (float_mul (1 / 2) 10)"
  using target_number_interpretation [of 1000 400] target_number_interpretation [of "5 / 2" 400]
    target_number_interpretation [of "1 / 2" 10] py_int_example
  by (simp add: py_int_def)

section \<open>Writing the output\<close>

lemma plan_repo_zero:
  "scale_plan example_scale_env [lit ''exp/data.jsonl''] (lit ''repo'') 0 None None False
     example_world = Inr ([], lit ''exp/repo_0.jsonl'')"
  by code_simp

lemma plan_tokens_threshold:
  "scale_plan example_scale_env [lit ''exp/data.jsonl''] (lit ''tokens'') 3 (Some (9 / 10)) None
     False example_world = Inr ([], lit ''exp/tokens_0.jsonl'')"
  by code_simp

lemma plan_random_two:
  "scale_plan example_scale_env [lit ''exp/data.jsonl''] (lit ''random'') 2 None None False
     example_world =
     Inr ([\<lparr>instance_id = lit ''unrelated_1'', messages = []\<rparr>,
           \<lparr>instance_id = lit ''c_1'', messages = []\<rparr>], lit ''exp/random_2.jsonl'')"
  by code_simp

lemma example_world_exists:
  "path_exists_in example_world (lit ''exp/data_filter_long_edit.jsonl'')"
  "path_exists_in example_world (lit ''exp/repo_0.jsonl'')"
  "path_exists_in example_world (lit ''exp/tokens_0.jsonl'')"
  "path_exists_in example_world (lit ''exp/random_2.jsonl'')"
  by (simp_all add: path_exists_in_def example_world_def lit_def)

lemma files_checked: "files (checked fp w) = files w"
  by (simp add: checked_def)

text \<open>
  C10. When the selection \<^verbatim>\<open>scaled_ds\<close> of the scaler is empty, \<^verbatim>\<open>main\<close> returns
  without an error and leaves the world as it was: no file is written and the log has no
  new existence check, whether or not the output path exists.
\<close>

theorem scale_empty_selection:
  "scale_plan env dataset type n threshold output_file no_filter w = Inr ([], fp) \<Longrightarrow>
   scale_main env dataset type n threshold output_file no_filter w = (Inr (), w)"
  by (simp add: scale_main_def)

theorem scale_empty_selection_witness:
  "path_exists_in example_world (lit ''exp/tokens_0.jsonl'') \<and>
   scale_main example_scale_env [lit ''exp/data.jsonl''] (lit ''tokens'') 3 (Some (9 / 10)) None
     False example_world = (Inr (), example_world)"
  using scale_empty_selection [OF plan_tokens_threshold] example_world_exists(3)
  by simp

text \<open>
  C5 as stated fails for the scaler: with target 0 the selection is empty, the output
  path \<^verbatim>\<open>exp/repo_0.jsonl\<close> exists, and \<^verbatim>\<open>main\<close> returns without an error.
\<close>

theorem scale_skips_collision_check:
  "scale_plan example_scale_env [lit ''exp/data.jsonl''] (lit ''repo'') 0 None None False
     example_world = Inr ([], lit ''exp/repo_0.jsonl'') \<and>
   path_exists_in example_world (lit ''exp/repo_0.jsonl'') \<and>
   scale_main example_scale_env [lit ''exp/data.jsonl''] (lit ''repo'') 0 None None False
     example_world = (Inr (), example_world)"
  using plan_repo_zero example_world_exists(2)
  by (simp add: scale_main_def)

lemma filter_main_no_write:
  "path_exists_in w p \<Longrightarrow>
   OpWrite p \<notin> set (new_ops w (snd (filter_main tf dataset folder filter_mode w)))"
  by (auto simp: filter_main_def write_jsonl_def checked_def new_ops_def
      split: sum.splits prod.splits)

lemma scale_main_no_write:
  "path_exists_in w p \<Longrightarrow>
   OpWrite p \<notin>
     set (new_ops w (snd (scale_main env dataset type n threshold output_file no_filter w)))"
  by (auto simp: scale_main_def write_jsonl_def checked_def new_ops_def
      split: sum.splits prod.splits)

lemma filter_main_keeps_existing:
  "path_exists_in w p \<Longrightarrow> files (snd (filter_main tf dataset folder filter_mode w)) p = files w p"
  by (auto simp: filter_main_def write_jsonl_def checked_def path_exists_in_def
      split: sum.splits prod.splits)

lemma scale_main_keeps_existing:
  "path_exists_in w p \<Longrightarrow>
   files (snd (scale_main env dataset type n threshold output_file no_filter w)) p = files w p"
  by (auto simp: scale_main_def write_jsonl_def checked_def path_exists_in_def
      split: sum.splits prod.splits)

text \<open>
  C5, as amended. Neither tool writes to a path that exists: whatever the run does, it
  logs no write to an existing path and the content of that path is the same after it.
  When the filter gets as far as its output step and the output path exists, it raises
  \<^verbatim>\<open>FileExistsError\<close> after the existence check and writes nothing; so does the
  scaler when it gets that far with a selection that is not empty.
\<close>

theorem existing_output_never_written:
  "(path_exists_in w p \<longrightarrow>
      OpWrite p \<notin> set (new_ops w (snd (filter_main tf dataset folder filter_mode w))) \<and>
      files (snd (filter_main tf dataset folder filter_mode w)) p = files w p \<and>
      OpWrite p \<notin>
        set (new_ops w (snd (scale_main env dataset type n threshold output_file no_filter w))) \<and>
      files (snd (scale_main env dataset type n threshold output_file no_filter w)) p =
        files w p) \<and>
   (filter_plan tf dataset folder filter_mode w = Inr (loaded_dataset, new_fp, remove_ids) \<and>
    path_exists_in w new_fp \<longrightarrow>
      filter_main tf dataset folder filter_mode w = (Inl FileExistsError, checked new_fp w)) \<and>
   (scale_plan env dataset type n threshold output_file no_filter w = Inr (scaled_ds, fp) \<and>
    scaled_ds \<noteq> [] \<and> path_exists_in w fp \<longrightarrow>
      scale_main env dataset type n threshold output_file no_filter w =
        (Inl FileExistsError, checked fp w))"
  by (simp add: filter_main_keeps_existing scale_main_keeps_existing filter_main_no_write
      scale_main_no_write)
    (simp add: filter_main_def scale_main_def)

lemma plan_filter_long_edit:
  "filter_plan example_folders [lit ''exp/data.jsonl''] (Some [lit ''traj'']) (lit ''long_edit'')
     example_world =
   Inr (example_dataset, lit ''exp/data_filter_long_edit.jsonl'',
        long_edit example_folders (set (map instance_id example_dataset)) [lit ''traj''])"
proof -
  have "filter_output_path [lit ''exp/data.jsonl''] (lit ''long_edit'') =
      Inr (lit ''exp/data_filter_long_edit.jsonl'')"
    by code_simp
  moreover have "filter_load example_world [lit ''exp/data.jsonl''] = Inr example_dataset"
    by (simp add: read_jsonl_def example_world_def lit_def)
  moreover have "example_dataset \<noteq> []"
    by (simp add: example_dataset_def)
  ultimately show ?thesis
    by (simp add: filter_plan_def bind_err_def flagged_ids_def)
qed

theorem existing_output_never_written_witness:
  "path_exists_in example_world (lit ''exp/data_filter_long_edit.jsonl'') \<and>
   filter_main example_folders [lit ''exp/data.jsonl''] (Some [lit ''traj'']) (lit ''long_edit'')
     example_world =
     (Inl FileExistsError, checked (lit ''exp/data_filter_long_edit.jsonl'') example_world) \<and>
   path_exists_in example_world (lit ''exp/random_2.jsonl'') \<and>
   scale_main example_scale_env [lit ''exp/data.jsonl''] (lit ''random'') 2 None None False
     example_world = (Inl FileExistsError, checked (lit ''exp/random_2.jsonl'') example_world) \<and>
   files (checked (lit ''exp/random_2.jsonl'') example_world) (lit ''exp/random_2.jsonl'') =
     files example_world (lit ''exp/random_2.jsonl'')"
  using existing_output_never_written [of example_world "lit ''exp/random_2.jsonl''"
      example_folders "[lit ''exp/data.jsonl'']" "Some [lit ''traj'']" "lit ''long_edit''"
      example_scale_env "lit ''random''" 2 None None False example_dataset
      "lit ''exp/data_filter_long_edit.jsonl''"
      "long_edit example_folders (set (map instance_id example_dataset)) [lit ''traj'']"
      "[\<lparr>instance_id = lit ''unrelated_1'', messages = []\<rparr>,
        \<lparr>instance_id = lit ''c_1'', messages = []\<rparr>]" "lit ''exp/random_2.jsonl''"]
    plan_filter_long_edit plan_random_two example_world_exists
  by (simp add: files_checked)

section \<open>The strategy \<^verbatim>\<open>repo\<close>\<close>

lemma split_from_not_Nil: "split_from sep cur s \<noteq> []"
  by (induction s arbitrary: cur) auto

lemma join_split_from: "join sep (split_from sep cur s) = cur @ s"
proof (induction s arbitrary: cur)
  case Nil
  show ?case by simp
next
  case (Cons c cs)
  show ?case
  proof (cases "c = sep")
    case True
    obtain y ys where ys: "split_from sep [] cs = y # ys"
      using split_from_not_Nil [of sep "[]" cs] by (cases "split_from sep [] cs") auto
    have "join sep (y # ys) = cs"
      using Cons.IH [of "[]"] ys by simp
    with True ys show ?thesis by simp
  next
    case False
    then show ?thesis using Cons.IH [of "cur @ [c]"] by simp
  qed
qed

lemma repo_name_of_butlast: "repo_name_of d = butlast (instance_id d)"
  by (simp add: repo_name_of_def split_def join_split_from)

lemma keys_repo_append:
  "map fst (repo_append m k d) = (if k \<in> set (map fst m) then map fst m else map fst m @ [k])"
  by (induction m k d rule: repo_append.induct) auto

lemma map_of_repo_append:
  "map_of (repo_append m k d) k' =
     (if k' = k then Some (case map_of m k of None \<Rightarrow> [d] | Some g \<Rightarrow> g @ [d])
      else map_of m k')"
  by (induction m k d rule: repo_append.induct) auto

lemma repo_to_data_snoc:
  "repo_to_data (ds @ [d]) = repo_append (repo_to_data ds) (repo_name_of d) d"
  by (simp add: repo_to_data_def)

lemma repo_to_data_inv:
  "distinct (map fst (repo_to_data ds)) \<and>
   set (map fst (repo_to_data ds)) = repo_name_of ` set ds \<and>
   (\<forall>k. map_of (repo_to_data ds) k =
      (if k \<in> repo_name_of ` set ds then Some (repo_group ds k) else None))"
proof (induction ds rule: rev_induct)
  case Nil
  show ?case by (simp add: repo_to_data_def)
next
  case (snoc d ds)
  let ?m = "repo_to_data ds" and ?r = "repo_name_of d"
  from snoc.IH have dist: "distinct (map fst ?m)"
    and keys: "set (map fst ?m) = repo_name_of ` set ds"
    and look: "\<And>k. map_of ?m k =
      (if k \<in> repo_name_of ` set ds then Some (repo_group ds k) else None)"
    by simp_all
  have d1: "distinct (map fst (repo_append ?m ?r d))"
    using dist by (simp add: keys_repo_append)
  have d2: "set (map fst (repo_append ?m ?r d)) = repo_name_of ` set (ds @ [d])"
    using keys by (auto simp: keys_repo_append)
  have d3: "map_of (repo_append ?m ?r d) k =
      (if k \<in> repo_name_of ` set (ds @ [d]) then Some (repo_group (ds @ [d]) k) else None)" for k
  proof (cases "k = ?r")
    case True
    show ?thesis
    proof (cases "?r \<in> repo_name_of ` set ds")
      case True
      with \<open>k = ?r\<close> show ?thesis
        by (simp add: map_of_repo_append look repo_group_def)
    next
      case False
      then have "\<forall>x \<in> set ds. repo_name_of x \<noteq> ?r"
        by (auto simp: image_iff)
      then have "filter (\<lambda>x. repo_name_of x = ?r) ds = []"
        by (simp add: filter_empty_conv)
      with False \<open>k = ?r\<close> show ?thesis
        by (simp add: map_of_repo_append look repo_group_def)
    qed
  next
    case False
    then show ?thesis
      by (auto simp: map_of_repo_append look repo_group_def)
  qed
  from d1 d2 d3 show ?case
    by (simp only: repo_to_data_snoc) blast
qed

lemma distinct_repo_keys: "distinct (repo_keys ds)"
  using repo_to_data_inv [of ds] by (simp add: repo_keys_def)

lemma map_of_repo_to_data:
  "k \<in> set (repo_keys ds) \<Longrightarrow> map_of (repo_to_data ds) k = Some (repo_group ds k)"
  using repo_to_data_inv [of ds] by (simp add: repo_keys_def)

lemma add_repos_prefix:
  assumes "\<And>k. k \<in> set ks \<Longrightarrow> map_of rtd k = Some (G k)"
  shows "\<exists>ks'. prefix ks' ks \<and>
           add_repos rtd n ks acc = Inr (acc @ concat (map G ks')) \<and>
           (ks' = ks \<or> n \<le> int (length (acc @ concat (map G ks')))) \<and>
           (\<forall>p. strict_prefix p ks' \<longrightarrow> int (length (acc @ concat (map G p))) < n)"
  using assms
proof (induction ks arbitrary: acc)
  case Nil
  show ?case by simp
next
  case (Cons k ks)
  have k: "map_of rtd k = Some (G k)"
    using Cons.prems by simp
  show ?case
  proof (cases "int (length acc) < n")
    case True
    obtain ks' where ks': "prefix ks' ks"
      "add_repos rtd n ks (acc @ G k) = Inr ((acc @ G k) @ concat (map G ks'))"
      "ks' = ks \<or> n \<le> int (length ((acc @ G k) @ concat (map G ks')))"
      "\<forall>p. strict_prefix p ks' \<longrightarrow> int (length ((acc @ G k) @ concat (map G p))) < n"
      using Cons.IH [of "acc @ G k"] Cons.prems by auto
    have "int (length (acc @ concat (map G p))) < n" if "strict_prefix p (k # ks')" for p
    proof (cases p)
      case Nil
      with True show ?thesis by simp
    next
      case (Cons a p')
      with that have "a = k" "strict_prefix p' ks'"
        by (simp_all add: strict_prefix_def)
      with ks'(4) Cons show ?thesis by simp
    qed
    then have "\<forall>p. strict_prefix p (k # ks') \<longrightarrow> int (length (acc @ concat (map G p))) < n"
      by blast
    with True k ks'(1,2,3) show ?thesis
      by (intro exI [of _ "k # ks'"]) auto
  next
    case False
    with k show ?thesis
      by (intro exI [of _ "[]"]) auto
  qed
qed

lemma repo_group_concat:
  "distinct ks \<Longrightarrow>
   repo_group (concat (map (repo_group ds) ks)) k = (if k \<in> set ks then repo_group ds k else [])"
proof (induction ks)
  case Nil
  show ?case by (simp add: repo_group_def)
next
  case (Cons a ks)
  have other: "a \<noteq> k \<Longrightarrow> filter (\<lambda>d. repo_name_of d = k) (repo_group ds a) = []"
    by (auto simp: repo_group_def filter_empty_conv)
  have same: "filter (\<lambda>d. repo_name_of d = k) (repo_group ds k) = repo_group ds k"
    by (simp add: repo_group_def)
  have "repo_group (concat (map (repo_group ds) (a # ks))) k =
      filter (\<lambda>d. repo_name_of d = k) (repo_group ds a) @
      repo_group (concat (map (repo_group ds) ks)) k"
    by (simp add: repo_group_def)
  also have "\<dots> = (if k \<in> set (a # ks) then repo_group ds k else [])"
  proof (cases "a = k")
    case True
    with Cons show ?thesis by (simp add: same)
  next
    case False
    with Cons show ?thesis by (simp add: other)
  qed
  finally show ?case .
qed

lemma scale_repos_example:
  "scale_repos rev example_repos 2 =
     Inr [\<lparr>instance_id = lit ''flask_1'', messages = []\<rparr>,
          \<lparr>instance_id = lit ''django_1'', messages = []\<rparr>,
          \<lparr>instance_id = lit ''django_2'', messages = []\<rparr>]"
  by code_simp

lemma scale_repos_prefix:
  assumes "mset (shuffle (repo_keys dataset)) = mset (repo_keys dataset)"
  shows "\<exists>ks. prefix ks (shuffle (repo_keys dataset)) \<and>
      scale_repos shuffle dataset n = Inr (concat (map (repo_group dataset) ks)) \<and>
      (ks = shuffle (repo_keys dataset) \<or>
       n \<le> int (length (concat (map (repo_group dataset) ks)))) \<and>
      (\<forall>p. strict_prefix p ks \<longrightarrow> int (length (concat (map (repo_group dataset) p))) < n) \<and>
      (\<forall>k. repo_group (concat (map (repo_group dataset) ks)) k =
         (if k \<in> set ks then repo_group dataset k else []))"
proof -
  let ?order = "shuffle (repo_keys dataset)"
  have set_order: "set ?order = set (repo_keys dataset)"
    using assms by (rule mset_eq_setD)
  have dist_order: "distinct ?order"
    using mset_eq_imp_distinct_iff [OF assms] distinct_repo_keys [of dataset] by simp
  have look: "map_of (repo_to_data dataset) k = Some (repo_group dataset k)"
    if "k \<in> set ?order" for k
    using that set_order by (simp add: map_of_repo_to_data)
  have "\<exists>ks. prefix ks ?order \<and>
      add_repos (repo_to_data dataset) n ?order [] =
        Inr ([] @ concat (map (repo_group dataset) ks)) \<and>
      (ks = ?order \<or> n \<le> int (length ([] @ concat (map (repo_group dataset) ks)))) \<and>
      (\<forall>p. strict_prefix p ks \<longrightarrow>
         int (length ([] @ concat (map (repo_group dataset) p))) < n)"
    by (rule add_repos_prefix) (rule look)
  then obtain ks where ks: "prefix ks ?order"
    "add_repos (repo_to_data dataset) n ?order [] = Inr ([] @ concat (map (repo_group dataset) ks))"
    "ks = ?order \<or> n \<le> int (length ([] @ concat (map (repo_group dataset) ks)))"
    "\<forall>p. strict_prefix p ks \<longrightarrow> int (length ([] @ concat (map (repo_group dataset) p))) < n"
    by blast
  from ks(1) dist_order have "distinct ks"
    by (auto simp: prefix_def)
  then have whole: "\<forall>k. repo_group (concat (map (repo_group dataset) ks)) k =
         (if k \<in> set ks then repo_group dataset k else [])"
    by (simp add: repo_group_concat)
  have run: "scale_repos shuffle dataset n = Inr (concat (map (repo_group dataset) ks))"
    using ks(2) by (simp add: scale_repos_def repo_keys_def Let_def)
  from ks(1) run ks(3,4) whole show ?thesis
    by (intro exI [of _ ks]) simp
qed

text \<open>
  C7. The repository key of a trajectory is its \<^verbatim>\<open>instance_id\<close> without the final
  character. When the shuffle permutes the keys, \<^verbatim>\<open>scale_repos\<close> returns the
  concatenation of the whole groups of the keys \<open>ks\<close> it has visited, a prefix of the
  shuffled order: it stops at the first point where the accumulated size has reached
  \<open>n\<close> (every shorter prefix gives less than \<open>n\<close>; either all keys are visited or the
  size is at least \<open>n\<close>). In the output every repository is whole or absent. The size
  can exceed \<open>n\<close>.
\<close>

theorem scale_repos_whole_groups:
  assumes "mset (shuffle (repo_keys dataset)) = mset (repo_keys dataset)"
  shows "repo_name_of d = butlast (instance_id d) \<and>
    (\<exists>ks. prefix ks (shuffle (repo_keys dataset)) \<and>
      scale_repos shuffle dataset n = Inr (concat (map (repo_group dataset) ks)) \<and>
      (ks = shuffle (repo_keys dataset) \<or>
       n \<le> int (length (concat (map (repo_group dataset) ks)))) \<and>
      (\<forall>p. strict_prefix p ks \<longrightarrow> int (length (concat (map (repo_group dataset) p))) < n) \<and>
      (\<forall>k. repo_group (concat (map (repo_group dataset) ks)) k =
         (if k \<in> set ks then repo_group dataset k else []))) \<and>
    (\<exists>sh ds m out. scale_repos sh ds m = Inr out \<and> m < int (length out))"
proof (intro conjI)
  show "repo_name_of d = butlast (instance_id d)"
    by (rule repo_name_of_butlast)
  show "\<exists>ks. prefix ks (shuffle (repo_keys dataset)) \<and>
      scale_repos shuffle dataset n = Inr (concat (map (repo_group dataset) ks)) \<and>
      (ks = shuffle (repo_keys dataset) \<or>
       n \<le> int (length (concat (map (repo_group dataset) ks)))) \<and>
      (\<forall>p. strict_prefix p ks \<longrightarrow> int (length (concat (map (repo_group dataset) p))) < n) \<and>
      (\<forall>k. repo_group (concat (map (repo_group dataset) ks)) k =
         (if k \<in> set ks then repo_group dataset k else []))"
    using assms by (rule scale_repos_prefix)
  show "\<exists>sh ds m out. scale_repos sh ds m = Inr out \<and> m < int (length out)"
  proof -
    have "(2::int) < int (length [\<lparr>instance_id = lit ''flask_1'', messages = []\<rparr>,
          \<lparr>instance_id = lit ''django_1'', messages = []\<rparr>,
          \<lparr>instance_id = lit ''django_2'', messages = []\<rparr>])"
      by simp
    with scale_repos_example show ?thesis by blast
  qed
qed

theorem scale_repos_whole_groups_witness:
  "mset (rev (repo_keys example_repos)) = mset (repo_keys example_repos) \<and>
   scale_repos rev example_repos 2 =
     Inr [\<lparr>instance_id = lit ''flask_1'', messages = []\<rparr>,
          \<lparr>instance_id = lit ''django_1'', messages = []\<rparr>,
          \<lparr>instance_id = lit ''django_2'', messages = []\<rparr>] \<and>
   (\<exists>ks. prefix ks (rev (repo_keys example_repos)) \<and>
      scale_repos rev example_repos 2 = Inr (concat (map (repo_group example_repos) ks)) \<and>
      (ks = rev (repo_keys example_repos) \<or>
       2 \<le> int (length (concat (map (repo_group example_repos) ks)))) \<and>
      (\<forall>p. strict_prefix p ks \<longrightarrow>
         int (length (concat (map (repo_group example_repos) p))) < 2) \<and>
      (\<forall>k. repo_group (concat (map (repo_group example_repos) ks)) k =
         (if k \<in> set ks then repo_group example_repos k else [])))"
proof -
  have h: "mset (rev (repo_keys example_repos)) = mset (repo_keys example_repos)"
    by simp
  from scale_repos_whole_groups [where shuffle = rev and dataset = example_repos and n = 2, OF h]
  have "\<exists>ks. prefix ks (rev (repo_keys example_repos)) \<and>
      scale_repos rev example_repos 2 = Inr (concat (map (repo_group example_repos) ks)) \<and>
      (ks = rev (repo_keys example_repos) \<or>
       2 \<le> int (length (concat (map (repo_group example_repos) ks)))) \<and>
      (\<forall>p. strict_prefix p ks \<longrightarrow>
         int (length (concat (map (repo_group example_repos) p))) < 2) \<and>
      (\<forall>k. repo_group (concat (map (repo_group example_repos) ks)) k =
         (if k \<in> set ks then repo_group example_repos k else []))"
    by (rule conjunct1 [OF conjunct2])
  with scale_repos_example h show ?thesis
    by (intro conjI)
qed

section \<open>The strategy \<^verbatim>\<open>tokens\<close>\<close>

lemma py_index_ok:
  "xs \<noteq> [] \<Longrightarrow> - 1 \<le> i \<Longrightarrow> i < int (length xs) \<Longrightarrow> \<exists>x. py_index xs i = Inr x"
  by (cases xs) (auto simp: py_index_def)

lemma py_index_empty: "py_index [] i = Inl IndexError"
  by (simp add: py_index_def)

lemma slice_to_nonneg: "0 \<le> k \<Longrightarrow> slice_to xs k = take (nat k) xs"
  by (simp add: slice_to_def)

lemma take_min_length:
  "length xs \<le> m \<Longrightarrow> 0 \<le> n \<Longrightarrow> take (nat (min n (int m))) xs = take (nat n) xs"
  by (cases "n \<le> int m") (simp_all add: min_def)

lemma length_sorted_desc: "length (sorted_desc xs) = length xs"
  by (simp add: sorted_desc_def)

lemma set_sorted_desc: "set (sorted_desc xs) = set xs"
  by (simp add: sorted_desc_def)

lemma sorted_desc_descending: "sorted_wrt (\<lambda>a b. fst b \<le> fst a) (sorted_desc xs)"
proof -
  have "sorted (map (\<lambda>x. - fst x) (sorted_desc xs))"
    by (simp add: sorted_desc_def)
  then show ?thesis
    by (simp add: sorted_map)
qed

lemma scale_tokens_result:
  assumes n: "0 \<le> n"
    and perm: "mset (shuffle (tuples_of dataset)) = mset (tuples_of dataset)"
    and zero: "t = 0 \<longrightarrow> (\<forall>r \<in> set (tuples_of dataset). 0 \<le> fst r)"
  shows "scale_tokens tuples_of shuffle dataset n (Some t) =
     (if tuples_of dataset = [] then Inl IndexError
      else Inr (map snd (take (nat n)
             (filter (\<lambda>r. t \<le> fst r) (sorted_desc (shuffle (tuples_of dataset)))))))"
proof -
  let ?recs = "shuffle (tuples_of dataset)"
  let ?sorted = "sorted_desc ?recs"
  have len: "length ?recs = length (tuples_of dataset)"
    using perm by (rule mset_eq_length)
  have set_recs: "set ?recs = set (tuples_of dataset)"
    using perm by (rule mset_eq_setD)
  show ?thesis
  proof (cases "tuples_of dataset = []")
    case True
    with len have "?sorted = []"
      by (simp add: sorted_desc_def)
    with True show ?thesis
      by (simp add: scale_tokens_def Let_def bind_err_def py_index_empty)
  next
    case False
    with len have ne: "?sorted \<noteq> []"
      by (metis length_0_conv length_sorted_desc)
    let ?number1 = "min n (int (length ?recs))"
    have n1: "0 \<le> ?number1"
      using n by simp
    obtain x where x: "py_index ?sorted 0 = Inr x"
      using py_index_ok [OF ne, of 0] ne by auto
    have lo: "- 1 \<le> ?number1 - 1"
      using n1 by linarith
    have hi: "?number1 - 1 < int (length ?sorted)"
      by (simp add: length_sorted_desc min_def)
    obtain y where y: "py_index ?sorted (?number1 - 1) = Inr y"
      using py_index_ok [OF ne lo hi] by blast
    have cap: "take (nat ?number1) zs = take (nat n) zs" if "length zs \<le> length ?recs" for zs :: "'b list"
      using that n by (rule take_min_length)
    have filt: "length (filter (\<lambda>r. t \<le> fst r) ?sorted) \<le> length ?recs"
      using length_filter_le [of "\<lambda>r. t \<le> fst r" ?sorted] by (simp add: length_sorted_desc)
    have all: "filter (\<lambda>r. t \<le> fst r) ?sorted = ?sorted" if "t = 0"
      using that zero set_recs by (simp add: set_sorted_desc)
    have split: "(\<lambda>(ratio, seq). t \<le> ratio) = (\<lambda>r. t \<le> fst r)"
      by (simp add: fun_eq_iff)
    show ?thesis
    proof (cases "t = 0")
      case True
      have "slice_to (map snd ?sorted) ?number1 = map snd (take (nat n) ?sorted)"
        using n1 cap [of ?sorted] by (simp add: slice_to_nonneg take_map length_sorted_desc)
      with True False x y all show ?thesis
        by (simp add: scale_tokens_def Let_def bind_err_def)
    next
      case nz: False
      have "slice_to (map snd (filter (\<lambda>r. t \<le> fst r) ?sorted)) ?number1 =
          map snd (take (nat n) (filter (\<lambda>r. t \<le> fst r) ?sorted))"
        using n1 cap [OF filt] by (simp add: slice_to_nonneg take_map)
      with nz False x y show ?thesis
        by (simp add: scale_tokens_def Let_def bind_err_def split)
    qed
  qed
qed

text \<open>
  C8. For a target \<open>n \<ge> 0\<close>, a shuffle that permutes the records, and a threshold \<open>t\<close>
  (the source takes a threshold \<open>0\<close> as none: then the ratios are to be non-negative),
  \<^verbatim>\<open>scale_tokens\<close> returns the trajectories of the records sorted descending by
  ratio, filtered by \<open>ratio \<ge> t\<close> and capped at \<open>n\<close>: every record of the output has
  ratio at least \<open>t\<close> and the output has at most \<open>n\<close> entries. With no record at all the
  log line of the ratio range raises \<^verbatim>\<open>IndexError\<close>.
\<close>

theorem scale_tokens_threshold_bound:
  assumes "0 \<le> n"
    and "mset (shuffle (tuples_of dataset)) = mset (tuples_of dataset)"
    and "t = 0 \<longrightarrow> (\<forall>r \<in> set (tuples_of dataset). 0 \<le> fst r)"
  shows "(tuples_of dataset = [] \<longrightarrow>
            scale_tokens tuples_of shuffle dataset n (Some t) = Inl IndexError) \<and>
         (tuples_of dataset \<noteq> [] \<longrightarrow>
            (\<exists>rs. scale_tokens tuples_of shuffle dataset n (Some t) = Inr (map snd rs) \<and>
                  rs = take (nat n)
                         (filter (\<lambda>r. t \<le> fst r) (sorted_desc (shuffle (tuples_of dataset)))) \<and>
                  int (length rs) \<le> n \<and>
                  (\<forall>r \<in> set rs. t \<le> fst r \<and> r \<in> set (tuples_of dataset)) \<and>
                  sorted_wrt (\<lambda>a b. fst b \<le> fst a) rs))"
proof (intro conjI impI)
  assume "tuples_of dataset = []"
  then show "scale_tokens tuples_of shuffle dataset n (Some t) = Inl IndexError"
    using scale_tokens_result [where tuples_of = tuples_of and dataset = dataset
        and shuffle = shuffle, OF assms] by simp
next
  assume ne: "tuples_of dataset \<noteq> []"
  let ?rs = "take (nat n) (filter (\<lambda>r. t \<le> fst r) (sorted_desc (shuffle (tuples_of dataset))))"
  have run: "scale_tokens tuples_of shuffle dataset n (Some t) = Inr (map snd ?rs)"
    using scale_tokens_result [where tuples_of = tuples_of and dataset = dataset
        and shuffle = shuffle, OF assms] ne by simp
  have len: "int (length ?rs) \<le> n"
    using assms(1) by simp
  have sub: "set ?rs \<subseteq> set (filter (\<lambda>r. t \<le> fst r) (sorted_desc (shuffle (tuples_of dataset))))"
    by (rule set_take_subset)
  have mem: "\<forall>r \<in> set ?rs. t \<le> fst r \<and> r \<in> set (tuples_of dataset)"
  proof
    fix r assume "r \<in> set ?rs"
    with sub have "r \<in> set (filter (\<lambda>r. t \<le> fst r) (sorted_desc (shuffle (tuples_of dataset))))"
      by blast
    then have "t \<le> fst r" "r \<in> set (shuffle (tuples_of dataset))"
      by (simp_all add: set_sorted_desc)
    with mset_eq_setD [OF assms(2)] show "t \<le> fst r \<and> r \<in> set (tuples_of dataset)"
      by simp
  qed
  have desc: "sorted_wrt (\<lambda>a b. fst b \<le> fst a) ?rs"
    by (intro sorted_wrt_take sorted_wrt_filter sorted_desc_descending)
  from run len mem desc
  show "\<exists>rs. scale_tokens tuples_of shuffle dataset n (Some t) = Inr (map snd rs) \<and>
          rs = ?rs \<and> int (length rs) \<le> n \<and>
          (\<forall>r \<in> set rs. t \<le> fst r \<and> r \<in> set (tuples_of dataset)) \<and>
          sorted_wrt (\<lambda>a b. fst b \<le> fst a) rs"
    by blast
qed

lemma scale_tokens_example:
  "scale_tokens example_tuples rev example_dataset 2 (Some (9 / 10)) =
     Inr [\<lparr>instance_id = lit ''a_1'', messages = []\<rparr>,
          \<lparr>instance_id = lit ''c_1'', messages = []\<rparr>]"
  by code_simp

theorem scale_tokens_threshold_bound_witness:
  "scale_tokens example_tuples rev example_dataset 2 (Some (9 / 10)) =
     Inr [\<lparr>instance_id = lit ''a_1'', messages = []\<rparr>,
          \<lparr>instance_id = lit ''c_1'', messages = []\<rparr>] \<and>
   (\<exists>rs. scale_tokens example_tuples rev example_dataset 2 (Some (9 / 10)) = Inr (map snd rs) \<and>
         rs = take (nat 2)
                (filter (\<lambda>r. 9 / 10 \<le> fst r) (sorted_desc (rev (example_tuples example_dataset)))) \<and>
         int (length rs) \<le> 2 \<and>
         (\<forall>r \<in> set rs. 9 / 10 \<le> fst r \<and> r \<in> set (example_tuples example_dataset)) \<and>
         sorted_wrt (\<lambda>a b. fst b \<le> fst a) rs)"
proof -
  have h1: "(0::int) \<le> 2"
    by simp
  have h2: "mset (rev (example_tuples example_dataset)) = mset (example_tuples example_dataset)"
    by simp
  have h3: "(9 / 10 :: rat) = 0 \<longrightarrow> (\<forall>r \<in> set (example_tuples example_dataset). 0 \<le> fst r)"
    by simp
  have ne: "example_tuples example_dataset \<noteq> []"
    by (simp add: example_tuples_def example_dataset_def)
  note b = scale_tokens_threshold_bound [where tuples_of = example_tuples
      and dataset = example_dataset and shuffle = rev, OF h1 h2 h3]
  from mp [OF conjunct2 [OF b] ne] scale_tokens_example
  show ?thesis
    by (intro conjI)
qed

end
